theory Spec2Isabelle
  imports
    Complex_Main
    "HOL-Library.AList"
    "HOL-Library.Char_ord"
    "HOL-Library.List_Lexorder"
    "HOL-Library.Product_Lexorder"
begin

section \<open>Values and errors\<close>

text \<open>
  The analysis engine of \<^verbatim>\<open>analyzer.py\<close> and the recorder of \<^verbatim>\<open>recorder.py\<close>
  are embedded as HOL functions. A record holds its masses and a configuration its
  thresholds as numbers of type \<^typ>\<open>real\<close>; such a number stands for the Python float
  nearest to it, which is the number itself when it is a double.

  Floating point enters in two ways. Whatever \<^verbatim>\<open>detect_anomalies\<close> decides, it decides
  in binary64 arithmetic: the quotient of Rule A and the deviation of Rule C are computed
  with the rounding of every operation, on the doubles that the attributes hold (section
  \<open>Binary64 arithmetic\<close>). The statistics that \<^verbatim>\<open>basic_statistics\<close> reports take no
  decision; they are idealised as computed over the reals, and the one non-number they
  can contain, pandas' missing marker \<^verbatim>\<open>np.nan\<close>, is the constructor \<open>NaN\<close> of
  \<open>pyfloat\<close>.

  Exceptions are values of \<open>py_error\<close>, returned as \<open>Inl\<close>. The private helpers
  \<^verbatim>\<open>_parse_float\<close> and \<^verbatim>\<open>_calculate_delta\<close> lose their leading underscore, and the loop
  variable \<^verbatim>\<open>exp\<close> is written \<open>e\<close>.
\<close>

datatype pyfloat = Fin real | NaN

datatype py_error =
    KeyError string
  | ZeroDivisionError
  | TypeError
  | ValueError
  | ValidationError string
  | MultipleResultsFound
  | IntegrityError
  | StatementError

section \<open>Binary64 arithmetic\<close>

text \<open>
  A Python float is an IEEE 754 double: a finite double, an infinity or a NaN. Signed
  zeros are not distinguished; no comparison of the engine can tell them apart.
\<close>

datatype float64 = F64 real | PosInf | NegInf | NaN64

text \<open>
  The exponent of a positive number: the \<open>e\<close> with \<open>2 ^ e \<le> a < 2 ^ (e + 1)\<close>, found by
  halving or doubling at most \<open>fuel\<close> times.
\<close>

fun binade :: "nat \<Rightarrow> real \<Rightarrow> int \<Rightarrow> int" where
  "binade 0 a e = e"
| "binade (Suc fuel) a e =
     (if 2 \<le> a then binade fuel (a / 2) (e + 1)
      else if a < 1 then binade fuel (a * 2) (e - 1)
      else e)"

text \<open>Rounding to the nearest integer, a tie going to the even one.\<close>

definition round_half_even :: "real \<Rightarrow> int" where
  "round_half_even x =
     (let f = \<lfloor>x\<rfloor>; d = x - of_int f in
      if d < 1 / 2 then f
      else if 1 / 2 < d then f + 1
      else if even f then f else f + 1)"

text \<open>
  Rounding to nearest, ties to even, with 53 significant bits: the unit in the last place
  is \<open>2 ^ (e - 52)\<close> for a number of exponent \<open>e\<close>, and \<open>2 ^ - 1074\<close> for the
  subnormal numbers below \<open>2 ^ - 1022\<close>. The exponent is not bounded from above here;
  \<open>round64\<close> adds the overflow.
\<close>

definition binary64 :: "real \<Rightarrow> real" where
  "binary64 x =
     (if x = 0 then 0
      else
        (let e = max (binade 1100 \<bar>x\<bar> 0) (- 1022); ulp = power_int 2 (e - 52) in
         sgn x * of_int (round_half_even (\<bar>x\<bar> / ulp)) * ulp))"

text \<open>
  The result of an operation whose exact value is \<open>x\<close>: the largest double is
  \<open>2 ^ 1024 - 2 ^ 971\<close>, and a value that rounds to \<open>2 ^ 1024\<close> or beyond is an infinity.
\<close>

definition round64 :: "real \<Rightarrow> float64" where
  "round64 x =
     (let r = binary64 x in
      if 2 ^ 1024 \<le> r then PosInf
      else if r \<le> - (2 ^ 1024) then NegInf
      else F64 r)"

text \<open>
  The operations on floats: each is the exact operation followed by rounding, with the
  IEEE rules for infinities and NaN.
\<close>

fun f64_neg :: "float64 \<Rightarrow> float64" where
  "f64_neg (F64 x) = F64 (- x)"
| "f64_neg PosInf = NegInf"
| "f64_neg NegInf = PosInf"
| "f64_neg NaN64 = NaN64"

fun f64_abs :: "float64 \<Rightarrow> float64" where
  "f64_abs (F64 x) = F64 \<bar>x\<bar>"
| "f64_abs PosInf = PosInf"
| "f64_abs NegInf = PosInf"
| "f64_abs NaN64 = NaN64"

fun f64_add :: "float64 \<Rightarrow> float64 \<Rightarrow> float64" where
  "f64_add (F64 a) (F64 b) = round64 (a + b)"
| "f64_add NaN64 y = NaN64"
| "f64_add x NaN64 = NaN64"
| "f64_add PosInf NegInf = NaN64"
| "f64_add NegInf PosInf = NaN64"
| "f64_add PosInf y = PosInf"
| "f64_add NegInf y = NegInf"
| "f64_add x PosInf = PosInf"
| "f64_add x NegInf = NegInf"

definition f64_sub :: "float64 \<Rightarrow> float64 \<Rightarrow> float64" where
  "f64_sub x y = f64_add x (f64_neg y)"

text \<open>Products and quotients that involve an infinity are decided by the signs.\<close>

fun sign64 :: "float64 \<Rightarrow> int" where
  "sign64 (F64 x) = (if x < 0 then - 1 else if x = 0 then 0 else 1)"
| "sign64 PosInf = 1"
| "sign64 NegInf = - 1"
| "sign64 NaN64 = 0"

definition inf_of_sign :: "int \<Rightarrow> float64" where
  "inf_of_sign s = (if 0 < s then PosInf else if s < 0 then NegInf else NaN64)"

fun f64_mul :: "float64 \<Rightarrow> float64 \<Rightarrow> float64" where
  "f64_mul (F64 a) (F64 b) = round64 (a * b)"
| "f64_mul NaN64 y = NaN64"
| "f64_mul x NaN64 = NaN64"
| "f64_mul x y = inf_of_sign (sign64 x * sign64 y)"

text \<open>
  The quotient as numpy computes it, where a zero divisor gives an infinity or NaN and
  no error. Both divisions of the engine have a non-zero divisor: Python's own division
  (\<open>py_truediv\<close> below) raises on zero, and pandas divides by a positive count.
\<close>

fun f64_div :: "float64 \<Rightarrow> float64 \<Rightarrow> float64" where
  "f64_div (F64 a) (F64 b) =
     (if b = 0 then inf_of_sign (sign64 (F64 a)) else round64 (a / b))"
| "f64_div NaN64 y = NaN64"
| "f64_div x NaN64 = NaN64"
| "f64_div (F64 a) y = F64 0"
| "f64_div x (F64 b) = inf_of_sign (sign64 x * (if b < 0 then - 1 else 1))"
| "f64_div x y = NaN64"

fun f64_sqrt :: "float64 \<Rightarrow> float64" where
  "f64_sqrt (F64 x) = (if x < 0 then NaN64 else round64 (sqrt x))"
| "f64_sqrt PosInf = PosInf"
| "f64_sqrt NegInf = NaN64"
| "f64_sqrt NaN64 = NaN64"

text \<open>
  The comparison \<^verbatim>\<open>x >= limit\<close> of a float with a threshold. The threshold is a real
  number; one at or below \<open>- 2 ^ 1024\<close> stands for minus infinity.
\<close>

fun float_ge64 :: "float64 \<Rightarrow> real \<Rightarrow> bool" where
  "float_ge64 (F64 x) limit = (limit \<le> x)"
| "float_ge64 PosInf limit = True"
| "float_ge64 NegInf limit = (limit \<le> - (2 ^ 1024))"
| "float_ge64 NaN64 limit = False"

text \<open>
  \<^verbatim>\<open>ndarray.sum\<close> on a column of doubles is numpy's pairwise summation: fewer than
  eight values are added from left to right; up to 128 values are added in eight
  interleaved lanes that are then combined as a tree, the remaining values being added
  last; a longer column is split near its middle at a multiple of eight. The reduction
  starts from the identity \<open>0.0\<close>, which adds nothing.
\<close>

function lanes_loop :: "float64 list \<Rightarrow> float64 list \<Rightarrow> float64 list \<times> float64 list" where
  "lanes_loop r a =
     (if 8 \<le> length a then lanes_loop (map2 f64_add r (take 8 a)) (drop 8 a) else (r, a))"
  by pat_completeness auto
termination
  by (relation "measure (\<lambda>(r, a). length a)") auto

definition block_sum :: "float64 list \<Rightarrow> float64" where
  "block_sum a =
     (case lanes_loop (take 8 a) (drop 8 a) of
        (r, rest) \<Rightarrow>
          foldl f64_add
            (f64_add (f64_add (f64_add (r ! 0) (r ! 1)) (f64_add (r ! 2) (r ! 3)))
                     (f64_add (f64_add (r ! 4) (r ! 5)) (f64_add (r ! 6) (r ! 7))))
            rest)"

function pairwise_sum :: "float64 list \<Rightarrow> float64" where
  "pairwise_sum a =
     (if length a < 8 then foldl f64_add (F64 0) a
      else if length a \<le> 128 then block_sum a
      else f64_add
             (pairwise_sum (take (length a div 2 - (length a div 2) mod 8) a))
             (pairwise_sum (drop (length a div 2 - (length a div 2) mod 8) a)))"
  by pat_completeness auto
termination
proof (relation "measure length", goal_cases)
  case 1
  show ?case by simp
next
  case (2 a)
  then have "length a div 2 - length a div 2 mod 8 < length a" by linarith
  then show ?case by simp
next
  case (3 a)
  have "length a div 2 mod 8 < 8" by simp
  with 3 have "0 < length a div 2 - length a div 2 mod 8" by linarith
  with 3 show ?case by simp
qed

text \<open>
  \<^verbatim>\<open>Series.std(ddof)\<close> as pandas computes it on doubles (\<^verbatim>\<open>nanops.nanvar\<close>, then the
  root): missing entries are counted out and replaced by zero, the mean is the sum over
  the count, the squares of the distances from the mean are summed (those of missing
  entries replaced by zero), divided by the count minus \<^verbatim>\<open>ddof\<close>, and the result is
  NaN when the count does not exceed \<^verbatim>\<open>ddof\<close>.
\<close>

definition pd_std64 :: "nat \<Rightarrow> float64 list \<Rightarrow> float64" where
  "pd_std64 ddof values =
     (let count = length (filter (\<lambda>v. v \<noteq> NaN64) values) in
      if count \<le> ddof then NaN64
      else
        (let values0 = map (\<lambda>v. if v = NaN64 then F64 0 else v) values;
             avg = f64_div (pairwise_sum values0) (F64 (real count));
             sqr = map (\<lambda>v. if v = NaN64 then F64 0
                            else f64_mul (f64_sub avg v) (f64_sub avg v)) values
         in f64_sqrt (f64_div (pairwise_sum sqr) (F64 (real (count - ddof))))))"

section \<open>models.py\<close>

text \<open>
  \<open>Experiment\<close> as the analyzer reads it: every column of the ORM class, with the
  timestamp as a point on an integer time line. The primary key column \<^verbatim>\<open>id\<close> is
  named \<open>id_pk\<close> and the column \<^verbatim>\<open>notes\<close> is named \<open>notes_txt\<close>, since \<open>id\<close> and
  \<open>notes\<close> are taken by HOL and Isar.
\<close>

record Experiment =
  id_pk :: int
  date_time :: int
  experiment_id :: string
  mode :: string
  voltage_V :: "real option"
  current_A :: "real option"
  electrolyte :: string
  duration_min :: "real option"
  initial_mass_positive_g :: real
  final_mass_positive_g :: real
  delta_mass_positive_g :: real
  initial_mass_negative_g :: real
  final_mass_negative_g :: real
  delta_mass_negative_g :: real
  notes_txt :: "string option"

text \<open>
  The message of an \<open>Anomaly\<close> is an f-string around one computed metric and the
  threshold it is compared with. Rendering a float as decimal text is not modelled: a
  message is its template together with the values the template is filled with.
\<close>

datatype message_text =
    Cathode_ratio_message float64 real
  | Anode_loss_message float64 real
  | Group_std_message string string float64 real

record Anomaly =
  experiment_id :: string
  anomaly_type :: string
  message :: message_text

section \<open>config.py\<close>

type_synonym thresholds = "string \<rightharpoonup> real"

definition DEFAULT_ANALYSIS_CONFIG :: thresholds where
  "DEFAULT_ANALYSIS_CONFIG =
     [''cathode_loss_ratio_threshold'' \<mapsto> 1 / 2,
      ''anode_loss_threshold_g'' \<mapsto> 1 / 10,
      ''std_dev_instability_threshold_g'' \<mapsto> 1 / 20]"

section \<open>The pandas reductions behind the reported statistics\<close>

text \<open>
  For the statistics that are reported, a \<^verbatim>\<open>Series\<close> of floats is a list of
  \<open>pyfloat\<close> and the reductions are taken over the reals. The reductions skip \<open>NaN\<close>
  entries (\<^verbatim>\<open>skipna=True\<close>, the default) and give \<open>NaN\<close> when nothing is left;
  \<open>pd_std\<close> takes the \<^verbatim>\<open>ddof\<close> argument and divides by the count minus \<open>ddof\<close>,
  giving \<open>NaN\<close> when the count does not exceed \<open>ddof\<close>.
\<close>

fun valid_values :: "pyfloat list \<Rightarrow> real list" where
  "valid_values [] = []"
| "valid_values (Fin x # s) = x # valid_values s"
| "valid_values (NaN # s) = valid_values s"

definition pd_mean :: "pyfloat list \<Rightarrow> pyfloat" where
  "pd_mean s =
     (let vs = valid_values s in
      if vs = [] then NaN else Fin (sum_list vs / real (length vs)))"

definition pd_std :: "nat \<Rightarrow> pyfloat list \<Rightarrow> pyfloat" where
  "pd_std ddof s =
     (let vs = valid_values s; count = length vs in
      if count \<le> ddof then NaN
      else
        (let avg = sum_list vs / real count;
             sqr = map (\<lambda>v. (avg - v)\<^sup>2) vs
         in Fin (sqrt (sum_list sqr / real (count - ddof)))))"

definition pd_max :: "pyfloat list \<Rightarrow> pyfloat" where
  "pd_max s = (case valid_values s of [] \<Rightarrow> NaN | v # vs \<Rightarrow> Fin (fold max vs v))"

definition pd_min :: "pyfloat list \<Rightarrow> pyfloat" where
  "pd_min s = (case valid_values s of [] \<Rightarrow> NaN | v # vs \<Rightarrow> Fin (fold min vs v))"

fun pd_abs :: "pyfloat \<Rightarrow> pyfloat" where
  "pd_abs (Fin x) = Fin \<bar>x\<bar>"
| "pd_abs NaN = NaN"

text \<open>\<^verbatim>\<open>series.replace(0, np.nan)\<close>, on one entry.\<close>

fun pd_replace_zero_nan :: "pyfloat \<Rightarrow> pyfloat" where
  "pd_replace_zero_nan (Fin x) = (if x = 0 then NaN else Fin x)"
| "pd_replace_zero_nan NaN = NaN"

text \<open>
  The entry of \<^verbatim>\<open>a / b.replace(0, np.nan)\<close> for numerator entry \<open>a\<close> and denominator
  entry \<open>b\<close>: a missing operand gives a missing quotient, and the replacement has
  removed every zero divisor before the division is made.
\<close>

definition pd_div_replaced :: "pyfloat \<Rightarrow> pyfloat \<Rightarrow> pyfloat" where
  "pd_div_replaced a b =
     (case (a, pd_replace_zero_nan b) of
        (Fin x, Fin d) \<Rightarrow> Fin (x / d)
      | _ \<Rightarrow> NaN)"

section \<open>analyzer.py: tabulation\<close>

text \<open>
  A \<^verbatim>\<open>DataFrame\<close> is the list of its rows; a row has the eleven columns that
  \<^verbatim>\<open>experiments_to_dataframe\<close> projects out of a record. The empty frame
  \<^verbatim>\<open>pd.DataFrame()\<close> is the empty list, and \<^verbatim>\<open>df.empty\<close> is \<open>df = []\<close>.
  Timestamps are already points in time, so \<^verbatim>\<open>pd.to_datetime\<close> leaves them as they are.
\<close>

record df_row =
  id_col :: int
  date_time_col :: int
  experiment_id_col :: string
  mode_col :: string
  voltage_V_col :: "real option"
  current_A_col :: "real option"
  electrolyte_col :: string
  duration_min_col :: "real option"
  delta_mass_positive_g_col :: real
  delta_mass_negative_g_col :: real
  notes_col :: "string option"

type_synonym DataFrame = "df_row list"

definition to_record :: "Experiment \<Rightarrow> df_row" where
  "to_record e =
     \<lparr> id_col = id_pk e,
       date_time_col = date_time e,
       experiment_id_col = Experiment.experiment_id e,
       mode_col = mode e,
       voltage_V_col = voltage_V e,
       current_A_col = current_A e,
       electrolyte_col = electrolyte e,
       duration_min_col = duration_min e,
       delta_mass_positive_g_col = delta_mass_positive_g e,
       delta_mass_negative_g_col = delta_mass_negative_g e,
       notes_col = notes_txt e \<rparr>"

definition experiments_to_dataframe :: "Experiment list \<Rightarrow> DataFrame" where
  "experiments_to_dataframe experiments =
     (let records = map to_record experiments in
      if records = [] then [] else records)"

text \<open>
  \<^verbatim>\<open>df.groupby(["electrolyte", "mode"])\<close>, iterated: one pair of key and sub-frame
  for each key that occurs, the keys in ascending order (strings compare by code point,
  tuples lexicographically), the rows of a sub-frame in the order of the frame.
\<close>

definition group_key :: "df_row \<Rightarrow> string \<times> string" where
  "group_key r = (electrolyte_col r, mode_col r)"

definition groupby_electrolyte_mode :: "DataFrame \<Rightarrow> ((string \<times> string) \<times> DataFrame) list" where
  "groupby_electrolyte_mode df =
     map (\<lambda>k. (k, filter (\<lambda>r. group_key r = k) df)) (sort (remdups (map group_key df)))"

section \<open>analyzer.py: statistics\<close>

datatype stat_entry = Columns "string \<rightharpoonup> pyfloat" | Scalar pyfloat

type_synonym stats = "string \<rightharpoonup> stat_entry"

definition series_stats :: "pyfloat list \<Rightarrow> stat_entry" where
  "series_stats series =
     Columns [''mean'' \<mapsto> pd_mean series,
              ''std'' \<mapsto> pd_std 0 series,
              ''max'' \<mapsto> pd_max series,
              ''min'' \<mapsto> pd_min series]"

definition positive_column :: "DataFrame \<Rightarrow> pyfloat list" where
  "positive_column df = map (\<lambda>r. Fin (delta_mass_positive_g_col r)) df"

definition negative_column :: "DataFrame \<Rightarrow> pyfloat list" where
  "negative_column df = map (\<lambda>r. Fin (delta_mass_negative_g_col r)) df"

definition basic_statistics :: "DataFrame \<Rightarrow> stats" where
  "basic_statistics df =
     (if df = [] then Map.empty
      else
        (let stats0 = Map.empty;
             stats1 = stats0(''anode'' \<mapsto> series_stats (positive_column df));
             stats2 = stats1(''cathode'' \<mapsto> series_stats (negative_column df))
         in stats2(''ratio_mean_abs'' \<mapsto>
              Scalar (pd_mean (map2 pd_div_replaced
                                 (map pd_abs (negative_column df))
                                 (map pd_abs (positive_column df)))))))"

fun grouped_loop ::
  "((string \<times> string) \<times> stats) list \<Rightarrow> ((string \<times> string) \<times> DataFrame) list
     \<Rightarrow> ((string \<times> string) \<times> stats) list" where
  "grouped_loop results [] = results"
| "grouped_loop results ((k, grp) # rest) =
     grouped_loop (AList.update k (basic_statistics grp) results) rest"

definition grouped_statistics :: "DataFrame \<Rightarrow> ((string \<times> string) \<times> stats) list" where
  "grouped_statistics df =
     (if df = [] then [] else grouped_loop [] (groupby_electrolyte_mode df))"

section \<open>analyzer.py: anomaly rules\<close>

text \<open>
  \<^verbatim>\<open>{**config.DEFAULT_ANALYSIS_CONFIG, **(thresholds or {})}\<close>: the caller's
  dictionary, when there is one, laid over the defaults key by key.
\<close>

definition or_empty :: "thresholds option \<Rightarrow> thresholds" where
  "or_empty thresholds = (case thresholds of None \<Rightarrow> Map.empty | Some t \<Rightarrow> t)"

definition merged_thresholds :: "thresholds option \<Rightarrow> thresholds" where
  "merged_thresholds thresholds = DEFAULT_ANALYSIS_CONFIG ++ or_empty thresholds"

text \<open>
  The values of the dictionary are Python floats: the number under a key is read as the
  double nearest to it, which is the number itself when it is a double.
\<close>

definition getitem :: "thresholds \<Rightarrow> string \<Rightarrow> py_error + real" where
  "getitem d k = (case d k of None \<Rightarrow> Inl (KeyError k) | Some v \<Rightarrow> Inr (binary64 v))"

text \<open>The float that an attribute of a record holds.\<close>

definition read_float :: "real \<Rightarrow> float64" where
  "read_float x = round64 x"

text \<open>Python's \<^verbatim>\<open>/\<close> on two floats raises on a zero divisor.\<close>

definition py_truediv :: "float64 \<Rightarrow> float64 \<Rightarrow> py_error + float64" where
  "py_truediv a b = (if b = F64 0 then Inl ZeroDivisionError else Inr (f64_div a b))"

text \<open>The body of the loop over the records: Rule A, then Rule B, appending to the list.\<close>

definition check_experiment ::
  "real \<Rightarrow> real \<Rightarrow> Anomaly list \<Rightarrow> Experiment \<Rightarrow> py_error + Anomaly list" where
  "check_experiment cathode_ratio_limit anode_loss_limit anomalies e =
     (case
        (if read_float (delta_mass_positive_g e) \<noteq> F64 0 then
           (case py_truediv (f64_abs (read_float (delta_mass_negative_g e)))
                            (f64_abs (read_float (delta_mass_positive_g e))) of
              Inl err \<Rightarrow> Inl err
            | Inr ratio \<Rightarrow>
                Inr (if float_ge64 ratio cathode_ratio_limit
                     then anomalies @
                       [\<lparr> experiment_id = Experiment.experiment_id e,
                          anomaly_type = ''HIGH_CATHODE_LOSS'',
                          message = Cathode_ratio_message ratio cathode_ratio_limit \<rparr>]
                     else anomalies))
         else Inr anomalies)
      of
        Inl err \<Rightarrow> Inl err
      | Inr anomalies1 \<Rightarrow>
          Inr (if float_ge64 (read_float (delta_mass_positive_g e)) anode_loss_limit
               then anomalies1 @
                 [\<lparr> experiment_id = Experiment.experiment_id e,
                    anomaly_type = ''HIGH_ANODE_LOSS'',
                    message = Anode_loss_message (read_float (delta_mass_positive_g e))
                                anode_loss_limit \<rparr>]
               else anomalies1))"

fun experiments_loop ::
  "real \<Rightarrow> real \<Rightarrow> Anomaly list \<Rightarrow> Experiment list \<Rightarrow> py_error + Anomaly list" where
  "experiments_loop cathode_ratio_limit anode_loss_limit anomalies [] = Inr anomalies"
| "experiments_loop cathode_ratio_limit anode_loss_limit anomalies (e # rest) =
     (case check_experiment cathode_ratio_limit anode_loss_limit anomalies e of
        Inl err \<Rightarrow> Inl err
      | Inr anomalies1 \<Rightarrow>
          experiments_loop cathode_ratio_limit anode_loss_limit anomalies1 rest)"

text \<open>
  The body of the loop over the groups: Rule C. The column
  \<^verbatim>\<open>group["delta_mass_positive_g"]\<close> holds the floats of the attribute, and its deviation
  is the one pandas computes on them.
\<close>

definition group_id :: "string \<Rightarrow> string \<Rightarrow> string" where
  "group_id el md = ''GROUP-'' @ el @ ''-'' @ md"

definition positive_column64 :: "DataFrame \<Rightarrow> float64 list" where
  "positive_column64 df = map (\<lambda>r. read_float (delta_mass_positive_g_col r)) df"

definition check_group ::
  "real \<Rightarrow> Anomaly list \<Rightarrow> (string \<times> string) \<times> DataFrame \<Rightarrow> Anomaly list" where
  "check_group instability_std_limit anomalies kg =
     (case kg of ((el, md), grp) \<Rightarrow>
        (let std_anode = pd_std64 0 (positive_column64 grp) in
         if float_ge64 std_anode instability_std_limit
         then anomalies @
           [\<lparr> experiment_id = group_id el md,
              anomaly_type = ''UNSTABLE_RESULTS'',
              message = Group_std_message el md std_anode instability_std_limit \<rparr>]
         else anomalies))"

fun groups_loop ::
  "real \<Rightarrow> Anomaly list \<Rightarrow> ((string \<times> string) \<times> DataFrame) list \<Rightarrow> Anomaly list" where
  "groups_loop instability_std_limit anomalies [] = anomalies"
| "groups_loop instability_std_limit anomalies (kg # rest) =
     groups_loop instability_std_limit (check_group instability_std_limit anomalies kg) rest"

definition detect_anomalies ::
  "Experiment list \<Rightarrow> thresholds option \<Rightarrow> py_error + Anomaly list" where
  "detect_anomalies experiments thresholds =
     (let th = merged_thresholds thresholds in
      case getitem th ''cathode_loss_ratio_threshold'' of
        Inl err \<Rightarrow> Inl err
      | Inr cathode_ratio_limit \<Rightarrow>
     (case getitem th ''anode_loss_threshold_g'' of
        Inl err \<Rightarrow> Inl err
      | Inr anode_loss_limit \<Rightarrow>
     (case getitem th ''std_dev_instability_threshold_g'' of
        Inl err \<Rightarrow> Inl err
      | Inr instability_std_limit \<Rightarrow>
          (let anomalies = []; experiments_list = experiments in
           if experiments_list = [] then Inr anomalies
           else
             (case experiments_loop cathode_ratio_limit anode_loss_limit anomalies
                     experiments_list of
                Inl err \<Rightarrow> Inl err
              | Inr anomalies1 \<Rightarrow>
                  (let df = experiments_to_dataframe experiments_list in
                   if df \<noteq> []
                   then Inr (groups_loop instability_std_limit anomalies1
                               (groupby_electrolyte_mode df))
                   else Inr anomalies1))))))"

section \<open>analyzer.py: combined summary\<close>

datatype field_value = Str string | Msg message_text

definition asdict :: "Anomaly \<Rightarrow> (string \<rightharpoonup> field_value)" where
  "asdict a =
     [''experiment_id'' \<mapsto> Str (Anomaly.experiment_id a),
      ''anomaly_type'' \<mapsto> Str (anomaly_type a),
      ''message'' \<mapsto> Msg (message a)]"

record analysis_summary =
  overall_stats :: stats
  grouped_stats :: "string \<rightharpoonup> stats"
  anomalies :: "(string \<rightharpoonup> field_value) list"

text \<open>
  \<^verbatim>\<open>str(k)\<close> of a key tuple is Python's \<^verbatim>\<open>repr\<close> of two strings in parentheses; its
  quoting rules are not modelled, and the rendering is the parameter \<open>str_of_key\<close>.
\<close>

definition summarize_analysis ::
  "(string \<times> string \<Rightarrow> string) \<Rightarrow> Experiment list \<Rightarrow> py_error + analysis_summary" where
  "summarize_analysis str_of_key experiments =
     (let exp_list = experiments;
          df = experiments_to_dataframe exp_list;
          stats_all = (if df \<noteq> [] then basic_statistics df else Map.empty);
          grouped = (if df \<noteq> [] then grouped_statistics df else [])
      in case detect_anomalies exp_list None of
           Inl err \<Rightarrow> Inl err
         | Inr found \<Rightarrow>
             Inr \<lparr> overall_stats = stats_all,
                   grouped_stats =
                     foldl (\<lambda>d (k, v). d(str_of_key k \<mapsto> v)) Map.empty grouped,
                   anomalies = map asdict found \<rparr>)"

section \<open>recorder.py\<close>

text \<open>
  The recorder takes keyword arguments and writes attributes by name
  (\<^verbatim>\<open>hasattr\<close>, \<^verbatim>\<open>setattr\<close>), so here a value is a tagged Python value, the keyword
  arguments are an association list in call order, and an \<open>Experiment\<close> instance is the
  map from its column names to their values. Text is turned into a number by Python's
  \<^verbatim>\<open>float\<close> and into a timestamp by \<^verbatim>\<open>datetime.fromisoformat\<close>; both parsers are
  parameters (\<open>None\<close> where Python raises).
\<close>

datatype pyval = PNone | PStr string | PFloat real | PInt int | PDateTime int | PTimeDelta int

type_synonym kwargs = "(string \<times> pyval) list"

type_synonym experiment_obj = "string \<rightharpoonup> pyval"

definition NUMERIC_FIELDS :: "string set" where
  "NUMERIC_FIELDS =
     {''voltage_V'', ''current_A'', ''duration_min'',
      ''initial_mass_positive_g'', ''final_mass_positive_g'',
      ''initial_mass_negative_g'', ''final_mass_negative_g''}"

text \<open>The columns of \<^verbatim>\<open>models.Experiment\<close>: the names for which \<^verbatim>\<open>hasattr\<close> holds.\<close>

definition COLUMNS :: "string set" where
  "COLUMNS =
     {''id'', ''date_time'', ''experiment_id'', ''mode'', ''voltage_V'', ''current_A'',
      ''electrolyte'', ''duration_min'',
      ''initial_mass_positive_g'', ''final_mass_positive_g'', ''delta_mass_positive_g'',
      ''initial_mass_negative_g'', ''final_mass_negative_g'', ''delta_mass_negative_g'',
      ''notes''}"

definition hasattr :: "experiment_obj \<Rightarrow> string \<Rightarrow> bool" where
  "hasattr obj key = (key \<in> COLUMNS)"

definition setattr :: "experiment_obj \<Rightarrow> string \<Rightarrow> pyval \<Rightarrow> experiment_obj" where
  "setattr obj key v = obj(key \<mapsto> v)"

text \<open>Reading a column that was never written gives \<^verbatim>\<open>None\<close>.\<close>

definition getattr :: "experiment_obj \<Rightarrow> string \<Rightarrow> pyval" where
  "getattr obj key = (case obj key of None \<Rightarrow> PNone | Some v \<Rightarrow> v)"

fun parse_float :: "(string \<Rightarrow> real option) \<Rightarrow> pyval \<Rightarrow> py_error + pyval" where
  "parse_float float_of_str PNone = Inr PNone"
| "parse_float float_of_str (PStr s) =
     (if s = [] then Inr PNone
      else (case float_of_str s of
              None \<Rightarrow> Inl (ValidationError ''Invalid numeric value'')
            | Some x \<Rightarrow> Inr (PFloat x)))"
| "parse_float float_of_str (PFloat x) = Inr (PFloat x)"
| "parse_float float_of_str (PInt i) = Inr (PFloat (of_int i))"
| "parse_float float_of_str (PDateTime t) = Inl (ValidationError ''Invalid numeric value'')"
| "parse_float float_of_str (PTimeDelta t) = Inl (ValidationError ''Invalid numeric value'')"

text \<open>Python's binary minus on the values above; every other pair of operands raises.\<close>

fun py_sub :: "pyval \<Rightarrow> pyval \<Rightarrow> py_error + pyval" where
  "py_sub (PFloat a) (PFloat b) = Inr (PFloat (a - b))"
| "py_sub (PFloat a) (PInt b) = Inr (PFloat (a - of_int b))"
| "py_sub (PInt a) (PFloat b) = Inr (PFloat (of_int a - b))"
| "py_sub (PInt a) (PInt b) = Inr (PInt (a - b))"
| "py_sub (PDateTime a) (PDateTime b) = Inr (PTimeDelta (a - b))"
| "py_sub (PDateTime a) (PTimeDelta b) = Inr (PDateTime (a - b))"
| "py_sub (PTimeDelta a) (PTimeDelta b) = Inr (PTimeDelta (a - b))"
| "py_sub a b = Inl TypeError"

definition calculate_delta :: "pyval \<Rightarrow> pyval \<Rightarrow> py_error + pyval" where
  "calculate_delta initial final = py_sub final initial"

text \<open>
  The table behind the session is the list of its rows. A commit flushes the objects of
  the session to the table. Each value first passes the bind processor of its column
  type: a \<^verbatim>\<open>Float\<close> column sends every value other than \<^verbatim>\<open>None\<close> through Python's
  \<^verbatim>\<open>float\<close>, so that numeric text is stored as the number it spells and a value that
  \<^verbatim>\<open>float\<close> refuses stops the statement; the \<^verbatim>\<open>DateTime\<close> column takes a timestamp and
  refuses any other value. Rows that an earlier commit stored hold floats and timestamps
  there and pass unchanged. The database then checks what \<^verbatim>\<open>models.py\<close> declares: the
  \<^verbatim>\<open>nullable=False\<close> columns that have no default hold a value, and \<^verbatim>\<open>experiment_id\<close>
  is unique. A failed commit, like any exception inside \<^verbatim>\<open>get_session\<close>, rolls back: the
  operation returns the error and the table stays as it was. The key \<^verbatim>\<open>id\<close> and the
  default timestamp are filled in by the database and are left as the code wrote them.
\<close>

type_synonym table = "experiment_obj list"

definition FLOAT_COLUMNS :: "string list" where
  "FLOAT_COLUMNS =
     [''voltage_V'', ''current_A'', ''duration_min'',
      ''initial_mass_positive_g'', ''final_mass_positive_g'', ''delta_mass_positive_g'',
      ''initial_mass_negative_g'', ''final_mass_negative_g'', ''delta_mass_negative_g'']"

fun bind_float :: "(string \<Rightarrow> real option) \<Rightarrow> pyval \<Rightarrow> py_error + pyval" where
  "bind_float float_of_str PNone = Inr PNone"
| "bind_float float_of_str (PStr s) =
     (case float_of_str s of None \<Rightarrow> Inl StatementError | Some x \<Rightarrow> Inr (PFloat x))"
| "bind_float float_of_str (PFloat x) = Inr (PFloat x)"
| "bind_float float_of_str (PInt i) = Inr (PFloat (of_int i))"
| "bind_float float_of_str (PDateTime t) = Inl StatementError"
| "bind_float float_of_str (PTimeDelta t) = Inl StatementError"

fun bind_datetime :: "pyval \<Rightarrow> py_error + pyval" where
  "bind_datetime PNone = Inr PNone"
| "bind_datetime (PDateTime t) = Inr (PDateTime t)"
| "bind_datetime v = Inl StatementError"

fun bind_columns ::
  "(pyval \<Rightarrow> py_error + pyval) \<Rightarrow> string list \<Rightarrow> experiment_obj
     \<Rightarrow> py_error + experiment_obj" where
  "bind_columns process [] obj = Inr obj"
| "bind_columns process (column # columns) obj =
     (case process (getattr obj column) of
        Inl err \<Rightarrow> Inl err
      | Inr x \<Rightarrow>
          bind_columns process columns (if x = PNone then obj else setattr obj column x))"

definition bind_row :: "(string \<Rightarrow> real option) \<Rightarrow> experiment_obj \<Rightarrow> py_error + experiment_obj" where
  "bind_row float_of_str obj =
     (case bind_columns (bind_float float_of_str) FLOAT_COLUMNS obj of
        Inl err \<Rightarrow> Inl err
      | Inr obj1 \<Rightarrow> bind_columns bind_datetime [''date_time''] obj1)"

fun bind_rows :: "(string \<Rightarrow> real option) \<Rightarrow> table \<Rightarrow> py_error + table" where
  "bind_rows float_of_str [] = Inr []"
| "bind_rows float_of_str (obj # rest) =
     (case bind_row float_of_str obj of
        Inl err \<Rightarrow> Inl err
      | Inr row \<Rightarrow>
          (case bind_rows float_of_str rest of
             Inl err \<Rightarrow> Inl err
           | Inr stored \<Rightarrow> Inr (row # stored)))"

definition REQUIRED_COLUMNS :: "string list" where
  "REQUIRED_COLUMNS =
     [''experiment_id'', ''mode'', ''electrolyte'',
      ''initial_mass_positive_g'', ''final_mass_positive_g'', ''delta_mass_positive_g'',
      ''initial_mass_negative_g'', ''final_mass_negative_g'', ''delta_mass_negative_g'']"

definition commit :: "(string \<Rightarrow> real option) \<Rightarrow> table \<Rightarrow> py_error + table" where
  "commit float_of_str rows =
     (case bind_rows float_of_str rows of
        Inl err \<Rightarrow> Inl err
      | Inr stored \<Rightarrow>
          (if list_all (\<lambda>obj. list_all (\<lambda>c. getattr obj c \<noteq> PNone) REQUIRED_COLUMNS) stored
              \<and> distinct (map (\<lambda>obj. getattr obj ''experiment_id'') stored)
           then Inr stored else Inl IntegrityError))"

text \<open>\<^verbatim>\<open>add_experiment\<close>: the dictionary \<^verbatim>\<open>parsed\<close> is filled in the order of the call.\<close>

definition dict_get :: "kwargs \<Rightarrow> string \<Rightarrow> pyval" where
  "dict_get d key = (case map_of d key of None \<Rightarrow> PNone | Some v \<Rightarrow> v)"

fun parse_items :: "(string \<Rightarrow> real option) \<Rightarrow> kwargs \<Rightarrow> kwargs \<Rightarrow> py_error + kwargs" where
  "parse_items float_of_str parsed [] = Inr parsed"
| "parse_items float_of_str parsed ((key, v) # rest) =
     (if key \<in> NUMERIC_FIELDS
      then (case parse_float float_of_str v of
              Inl err \<Rightarrow> Inl err
            | Inr x \<Rightarrow> parse_items float_of_str (AList.update key x parsed) rest)
      else parse_items float_of_str (AList.update key v parsed) rest)"

fun check_required :: "kwargs \<Rightarrow> string list \<Rightarrow> py_error + unit" where
  "check_required parsed [] = Inr ()"
| "check_required parsed (field # rest) =
     (if dict_get parsed field = PNone
      then Inl (ValidationError (''Missing required numeric field: '' @ field))
      else check_required parsed rest)"

definition construct_experiment :: "kwargs \<Rightarrow> py_error + experiment_obj" where
  "construct_experiment parsed =
     (if list_all (\<lambda>key. key \<in> COLUMNS) (map fst parsed)
      then Inr (map_of parsed) else Inl TypeError)"

definition add_experiment ::
  "(string \<Rightarrow> real option) \<Rightarrow> (string \<Rightarrow> int option) \<Rightarrow> table \<Rightarrow> kwargs
     \<Rightarrow> py_error + table \<times> experiment_obj" where
  "add_experiment float_of_str fromisoformat rows data =
     (case parse_items float_of_str [] data of
        Inl err \<Rightarrow> Inl err
      | Inr parsed \<Rightarrow>
     (case check_required parsed
             [''initial_mass_positive_g'', ''final_mass_positive_g'',
              ''initial_mass_negative_g'', ''final_mass_negative_g''] of
        Inl err \<Rightarrow> Inl err
      | Inr _ \<Rightarrow>
     (case calculate_delta (dict_get parsed ''initial_mass_positive_g'')
                           (dict_get parsed ''final_mass_positive_g'') of
        Inl err \<Rightarrow> Inl err
      | Inr delta_pos \<Rightarrow>
     (let parsed1 = AList.update ''delta_mass_positive_g'' delta_pos parsed in
      case calculate_delta (dict_get parsed1 ''initial_mass_negative_g'')
                           (dict_get parsed1 ''final_mass_negative_g'') of
        Inl err \<Rightarrow> Inl err
      | Inr delta_neg \<Rightarrow>
     (let parsed2 = AList.update ''delta_mass_negative_g'' delta_neg parsed1 in
      case (case dict_get parsed2 ''date_time'' of
              PStr s \<Rightarrow>
                (case fromisoformat s of
                   None \<Rightarrow> Inl ValueError
                 | Some t \<Rightarrow> Inr (AList.update ''date_time'' (PDateTime t) parsed2))
            | _ \<Rightarrow> Inr parsed2) of
        Inl err \<Rightarrow> Inl err
      | Inr parsed3 \<Rightarrow>
     (case construct_experiment parsed3 of
        Inl err \<Rightarrow> Inl err
      | Inr experiment \<Rightarrow>
     (case commit float_of_str (rows @ [experiment]) of
        Inl err \<Rightarrow> Inl err
      | Inr rows1 \<Rightarrow> Inr (rows1, experiment))))))))"

text \<open>\<^verbatim>\<open>edit_experiment\<close>.\<close>

fun one_or_none :: "experiment_obj list \<Rightarrow> py_error + experiment_obj option" where
  "one_or_none [] = Inr None"
| "one_or_none [obj] = Inr (Some obj)"
| "one_or_none (obj # obj2 # objs) = Inl MultipleResultsFound"

definition has_experiment_id :: "string \<Rightarrow> experiment_obj \<Rightarrow> bool" where
  "has_experiment_id ident obj = (getattr obj ''experiment_id'' = PStr ident)"

fun apply_changes ::
  "(string \<Rightarrow> real option) \<Rightarrow> experiment_obj \<Rightarrow> kwargs \<Rightarrow> py_error + experiment_obj" where
  "apply_changes float_of_str experiment [] = Inr experiment"
| "apply_changes float_of_str experiment ((key, v) # rest) =
     (case (if key \<in> NUMERIC_FIELDS then parse_float float_of_str v else Inr v) of
        Inl err \<Rightarrow> Inl err
      | Inr x \<Rightarrow>
          apply_changes float_of_str
            (if hasattr experiment key then setattr experiment key x else experiment) rest)"

definition recalculate ::
  "kwargs \<Rightarrow> string \<Rightarrow> string \<Rightarrow> string \<Rightarrow> experiment_obj \<Rightarrow> py_error + experiment_obj" where
  "recalculate changes initial_key final_key delta_key experiment =
     (if list_ex (\<lambda>k. k \<in> set (map fst changes)) [initial_key, final_key]
      then (case calculate_delta (getattr experiment initial_key)
                                 (getattr experiment final_key) of
              Inl err \<Rightarrow> Inl err
            | Inr delta \<Rightarrow> Inr (setattr experiment delta_key delta))
      else Inr experiment)"

text \<open>
  The changes arrive as keyword arguments beside the parameter \<^verbatim>\<open>experiment_id\<close>: a
  change under that very name is a second value for the parameter, and Python refuses
  the call before the body runs.
\<close>

definition edit_experiment ::
  "(string \<Rightarrow> real option) \<Rightarrow> table \<Rightarrow> string \<Rightarrow> kwargs
     \<Rightarrow> py_error + table \<times> experiment_obj" where
  "edit_experiment float_of_str rows ident changes =
     (if ''experiment_id'' \<in> set (map fst changes) then Inl TypeError
      else
     (case one_or_none (filter (has_experiment_id ident) rows) of
        Inl err \<Rightarrow> Inl err
      | Inr None \<Rightarrow> Inl (ValidationError (''Experiment '' @ ident @ '' not found''))
      | Inr (Some experiment) \<Rightarrow>
     (case apply_changes float_of_str experiment changes of
        Inl err \<Rightarrow> Inl err
      | Inr experiment1 \<Rightarrow>
     (case recalculate changes ''initial_mass_positive_g'' ''final_mass_positive_g''
             ''delta_mass_positive_g'' experiment1 of
        Inl err \<Rightarrow> Inl err
      | Inr experiment2 \<Rightarrow>
     (case recalculate changes ''initial_mass_negative_g'' ''final_mass_negative_g''
             ''delta_mass_negative_g'' experiment2 of
        Inl err \<Rightarrow> Inl err
      | Inr experiment3 \<Rightarrow>
     (case commit float_of_str
             (map (\<lambda>obj. if has_experiment_id ident obj then experiment3 else obj) rows) of
        Inl err \<Rightarrow> Inl err
      | Inr rows1 \<Rightarrow> Inr (rows1, experiment3)))))))"

text \<open>The invariant of the data model: each stored delta is final mass minus initial mass.\<close>

definition delta_positive_ok :: "experiment_obj \<Rightarrow> bool" where
  "delta_positive_ok obj =
     (calculate_delta (getattr obj ''initial_mass_positive_g'')
                      (getattr obj ''final_mass_positive_g'')
        = Inr (getattr obj ''delta_mass_positive_g''))"

definition delta_negative_ok :: "experiment_obj \<Rightarrow> bool" where
  "delta_negative_ok obj =
     (calculate_delta (getattr obj ''initial_mass_negative_g'')
                      (getattr obj ''final_mass_negative_g'')
        = Inr (getattr obj ''delta_mass_negative_g''))"

section \<open>The specification's reading of the engine\<close>

text \<open>
  The definitions of this section follow the words of the specification, not the code:
  they are what the code is compared with. A threshold is the caller's value for its key
  when the caller gives one, and the documented default otherwise, as a float.
\<close>

definition threshold_value :: "thresholds option \<Rightarrow> string \<Rightarrow> real \<Rightarrow> real" where
  "threshold_value thresholds key dflt =
     (case thresholds of
        None \<Rightarrow> dflt
      | Some t \<Rightarrow> (case t key of None \<Rightarrow> dflt | Some v \<Rightarrow> v))"

definition cathode_limit :: "thresholds option \<Rightarrow> real" where
  "cathode_limit thresholds =
     binary64 (threshold_value thresholds ''cathode_loss_ratio_threshold'' (1 / 2))"

definition anode_limit :: "thresholds option \<Rightarrow> real" where
  "anode_limit thresholds =
     binary64 (threshold_value thresholds ''anode_loss_threshold_g'' (1 / 10))"

definition std_limit :: "thresholds option \<Rightarrow> real" where
  "std_limit thresholds =
     binary64 (threshold_value thresholds ''std_dev_instability_threshold_g'' (1 / 20))"

text \<open>The two deltas of a record, as the floats the record holds.\<close>

definition anode_delta :: "Experiment \<Rightarrow> float64" where
  "anode_delta e = round64 (delta_mass_positive_g e)"

definition cathode_delta :: "Experiment \<Rightarrow> float64" where
  "cathode_delta e = round64 (delta_mass_negative_g e)"

text \<open>
  Rule A on one record: the ratio of the absolute deltas, computed as a float, against
  the threshold.
\<close>

definition cathode_ratio :: "Experiment \<Rightarrow> float64" where
  "cathode_ratio e = f64_div (f64_abs (cathode_delta e)) (f64_abs (anode_delta e))"

definition rule_A_fires :: "real \<Rightarrow> Experiment \<Rightarrow> bool" where
  "rule_A_fires limit e = (anode_delta e \<noteq> F64 0 \<and> float_ge64 (cathode_ratio e) limit)"

definition rule_A :: "real \<Rightarrow> Experiment \<Rightarrow> Anomaly list" where
  "rule_A limit e =
     (if rule_A_fires limit e
      then [\<lparr> experiment_id = Experiment.experiment_id e,
               anomaly_type = ''HIGH_CATHODE_LOSS'',
               message = Cathode_ratio_message (cathode_ratio e) limit \<rparr>]
      else [])"

text \<open>Rule B on one record.\<close>

definition rule_B :: "real \<Rightarrow> Experiment \<Rightarrow> Anomaly list" where
  "rule_B limit e =
     (if float_ge64 (anode_delta e) limit
      then [\<lparr> experiment_id = Experiment.experiment_id e,
               anomaly_type = ''HIGH_ANODE_LOSS'',
               message = Anode_loss_message (anode_delta e) limit \<rparr>]
      else [])"

text \<open>
  The arithmetic mean of a non-empty list of numbers, and its population standard
  deviation: the root of the mean of the squared distances from the mean, the
  denominator being the count.
\<close>

definition arithmetic_mean :: "real list \<Rightarrow> real" where
  "arithmetic_mean xs = sum_list xs / real (length xs)"

definition population_std :: "real list \<Rightarrow> real" where
  "population_std xs =
     sqrt (sum_list (map (\<lambda>x. (x - arithmetic_mean xs)\<^sup>2) xs) / real (length xs))"

text \<open>
  The same two quantities computed on floats, every sum, difference, product, quotient
  and root being rounded, the sums taken in numpy's order.
\<close>

definition arithmetic_mean64 :: "float64 list \<Rightarrow> float64" where
  "arithmetic_mean64 xs = f64_div (pairwise_sum xs) (F64 (real (length xs)))"

definition population_std64 :: "float64 list \<Rightarrow> float64" where
  "population_std64 xs =
     f64_sqrt
       (f64_div
          (pairwise_sum
             (map (\<lambda>x. f64_mul (f64_sub (arithmetic_mean64 xs) x)
                              (f64_sub (arithmetic_mean64 xs) x)) xs))
          (F64 (real (length xs))))"

text \<open>
  The contributions to \<^verbatim>\<open>ratio_mean_abs\<close>: one ratio of absolute deltas for each row
  whose anode delta is not zero.
\<close>

definition ratio_contributions :: "DataFrame \<Rightarrow> real list" where
  "ratio_contributions df =
     map (\<lambda>r. \<bar>delta_mass_negative_g_col r\<bar> / \<bar>delta_mass_positive_g_col r\<bar>)
         (filter (\<lambda>r. delta_mass_positive_g_col r \<noteq> 0) df)"

text \<open>
  Rule C on one group of records that share electrolyte \<open>el\<close> and mode \<open>md\<close>, given
  the anode deltas of the group.
\<close>

definition rule_C :: "real \<Rightarrow> string \<Rightarrow> string \<Rightarrow> float64 list \<Rightarrow> Anomaly list" where
  "rule_C limit el md deltas =
     (if deltas \<noteq> [] \<and> float_ge64 (population_std64 deltas) limit
      then [\<lparr> experiment_id = group_id el md,
               anomaly_type = ''UNSTABLE_RESULTS'',
               message = Group_std_message el md (population_std64 deltas) limit \<rparr>]
      else [])"

text \<open>The records of a group, in input order, and the groups of a record sequence.\<close>

definition group_members :: "Experiment list \<Rightarrow> string \<Rightarrow> string \<Rightarrow> Experiment list" where
  "group_members es el md = filter (\<lambda>e. electrolyte e = el \<and> mode e = md) es"

definition group_keys :: "Experiment list \<Rightarrow> (string \<times> string) list" where
  "group_keys es = sort (remdups (map (\<lambda>e. (electrolyte e, mode e)) es))"

definition rule_C_findings :: "real \<Rightarrow> Experiment list \<Rightarrow> Anomaly list" where
  "rule_C_findings limit es =
     concat (map (\<lambda>(el, md). rule_C limit el md (map anode_delta (group_members es el md)))
                 (group_keys es))"

definition is_type :: "string \<Rightarrow> Anomaly \<Rightarrow> bool" where
  "is_type t a = (anomaly_type a = t)"

section \<open>Sample inputs\<close>

text \<open>Scenario 2 of the specification: a small anode delta with a larger cathode delta.\<close>

definition scenario_2 :: Experiment where
  "scenario_2 =
     \<lparr> id_pk = 2, date_time = 0, experiment_id = ''E2'', mode = ''CV'',
       voltage_V = None, current_A = None, electrolyte = ''KOH'', duration_min = None,
       initial_mass_positive_g = 1, final_mass_positive_g = 1 + 2 / 100,
       delta_mass_positive_g = 2 / 100,
       initial_mass_negative_g = 1, final_mass_negative_g = 1 - 3 / 100,
       delta_mass_negative_g = - (3 / 100), notes_txt = None \<rparr>"

text \<open>Scenario 1: an anode delta above the default anode threshold.\<close>

definition scenario_1 :: Experiment where
  "scenario_1 =
     \<lparr> id_pk = 1, date_time = 0, experiment_id = ''E1'', mode = ''CV'',
       voltage_V = None, current_A = None, electrolyte = ''KOH'', duration_min = None,
       initial_mass_positive_g = 1, final_mass_positive_g = 1 + 12 / 100,
       delta_mass_positive_g = 12 / 100,
       initial_mass_negative_g = 1, final_mass_negative_g = 1 - 2 / 100,
       delta_mass_negative_g = - (2 / 100), notes_txt = None \<rparr>"

text \<open>Scenario 3: two records of the group \<open>(KOH, CV)\<close> with anode deltas 0.10 and 0.20.\<close>

definition scenario_3a :: Experiment where
  "scenario_3a =
     \<lparr> id_pk = 3, date_time = 0, experiment_id = ''E3'', mode = ''CV'',
       voltage_V = None, current_A = None, electrolyte = ''KOH'', duration_min = None,
       initial_mass_positive_g = 1, final_mass_positive_g = 1 + 10 / 100,
       delta_mass_positive_g = 10 / 100,
       initial_mass_negative_g = 1, final_mass_negative_g = 1,
       delta_mass_negative_g = 0, notes_txt = None \<rparr>"

definition scenario_3b :: Experiment where
  "scenario_3b =
     \<lparr> id_pk = 4, date_time = 1, experiment_id = ''E4'', mode = ''CV'',
       voltage_V = None, current_A = None, electrolyte = ''KOH'', duration_min = None,
       initial_mass_positive_g = 1, final_mass_positive_g = 1 + 20 / 100,
       delta_mass_positive_g = 20 / 100,
       initial_mass_negative_g = 1, final_mass_negative_g = 1,
       delta_mass_negative_g = 0, notes_txt = None \<rparr>"

text \<open>Scenario 4: a record whose anode delta is zero and whose cathode delta is not.\<close>

definition scenario_4 :: Experiment where
  "scenario_4 =
     \<lparr> id_pk = 5, date_time = 2, experiment_id = ''E5'', mode = ''CC'',
       voltage_V = None, current_A = None, electrolyte = ''NaOH'', duration_min = None,
       initial_mass_positive_g = 1, final_mass_positive_g = 1,
       delta_mass_positive_g = 0,
       initial_mass_negative_g = 1, final_mass_negative_g = 1 - 3 / 100,
       delta_mass_negative_g = - (3 / 100), notes_txt = None \<rparr>"

text \<open>An override of the anode threshold alone.\<close>

definition low_anode_threshold :: thresholds where
  "low_anode_threshold = [''anode_loss_threshold_g'' \<mapsto> 1 / 100]"

text \<open>An override of the ratio threshold alone, to the ratio of scenario 2.\<close>

definition high_ratio_threshold :: thresholds where
  "high_ratio_threshold = [''cathode_loss_ratio_threshold'' \<mapsto> 3 / 2]"

text \<open>An override that sets the instability threshold to zero.\<close>

definition zero_std_threshold :: thresholds where
  "zero_std_threshold = [''std_dev_instability_threshold_g'' \<mapsto> 0]"

text \<open>A call of \<^verbatim>\<open>add_experiment\<close> with the required fields, and the object it stores.\<close>

definition new_record_data :: kwargs where
  "new_record_data =
     [(''experiment_id'', PStr ''E1''), (''mode'', PStr ''CV''), (''electrolyte'', PStr ''KOH''),
      (''initial_mass_positive_g'', PFloat 1), (''final_mass_positive_g'', PFloat (112 / 100)),
      (''initial_mass_negative_g'', PFloat 1), (''final_mass_negative_g'', PFloat (98 / 100))]"

definition stored_E1 :: experiment_obj where
  "stored_E1 =
     map_of
       [(''experiment_id'', PStr ''E1''), (''mode'', PStr ''CV''), (''electrolyte'', PStr ''KOH''),
        (''initial_mass_positive_g'', PFloat 1), (''final_mass_positive_g'', PFloat (112 / 100)),
        (''initial_mass_negative_g'', PFloat 1), (''final_mass_negative_g'', PFloat (98 / 100)),
        (''delta_mass_positive_g'', PFloat (12 / 100)),
        (''delta_mass_negative_g'', PFloat (- (2 / 100)))]"

text \<open>An edit that names the derived column itself, with a number and with text.\<close>

definition delta_override :: kwargs where
  "delta_override = [(''delta_mass_positive_g'', PFloat 5)]"

definition delta_override_text :: kwargs where
  "delta_override_text = [(''delta_mass_positive_g'', PStr ''5'')]"

section \<open>Rounding to binary64\<close>

text \<open>
  What the claims need of \<open>binary64\<close>: the exponent found by \<open>binade\<close> is the right
  one, a number that is a double is left as it is, every result is a double, and a
  number within half a unit in the last place of a double is rounded to it.
\<close>

lemma two_powi_Suc: "power_int (2::real) (k + 1) = 2 * power_int 2 k"
  by (simp add: power_int_add)

lemma two_powi_pred: "power_int (2::real) k = 2 * power_int 2 (k - 1)"
  using power_int_add [of "2::real" "k - 1" 1] by simp

lemma binade_bounds:
  assumes "power_int 2 (- int fuel) \<le> a" and "a < power_int 2 (int fuel + 1)"
  shows "power_int 2 (binade fuel a e - e) \<le> a \<and> a < power_int 2 (binade fuel a e - e + 1)
         \<and> \<bar>binade fuel a e - e\<bar> \<le> int fuel"
  using assms
proof (induction fuel arbitrary: a e)
  case 0
  then show ?case by simp
next
  case (Suc fuel)
  have "- int fuel - 1 = - int (Suc fuel)" by simp
  then have lo: "power_int 2 (- int fuel) = 2 * power_int (2::real) (- int (Suc fuel))"
    using two_powi_pred [of "- int fuel"] by (simp only:)
  have "int fuel + 1 + 1 = int (Suc fuel) + 1" by simp
  then have hi: "power_int 2 (int (Suc fuel) + 1) = 2 * power_int (2::real) (int fuel + 1)"
    using two_powi_Suc [of "int fuel + 1"] by (simp only:)
  have small: "power_int (2::real) (- int fuel) \<le> 1"
    using power_int_increasing [of "- int fuel" 0 "2::real"] by simp
  have large: "(2::real) \<le> power_int 2 (int fuel + 1)"
    using power_int_increasing [of 1 "int fuel + 1" "2::real"] by simp
  consider (big) "2 \<le> a" | (tiny) "a < 1" | (unit) "1 \<le> a" "a < 2" by linarith
  then show ?case
  proof cases
    case big
    let ?r = "binade fuel (a / 2) (e + 1)"
    have "power_int 2 (?r - (e + 1)) \<le> a / 2 \<and> a / 2 < power_int 2 (?r - (e + 1) + 1)
          \<and> \<bar>?r - (e + 1)\<bar> \<le> int fuel"
    proof (rule Suc.IH)
      show "power_int 2 (- int fuel) \<le> a / 2" using big small by simp
      show "a / 2 < power_int 2 (int fuel + 1)" using Suc.prems(2) hi by simp
    qed
    moreover have "power_int (2::real) (?r - e) = 2 * power_int 2 (?r - (e + 1))"
    proof -
      have "?r - e - 1 = ?r - (e + 1)" by simp
      then show ?thesis using two_powi_pred [of "?r - e"] by (simp only:)
    qed
    moreover have "power_int (2::real) (?r - e + 1) = 2 * power_int 2 (?r - (e + 1) + 1)"
    proof -
      have "?r - (e + 1) + 1 + 1 = ?r - e + 1" by simp
      then show ?thesis using two_powi_Suc [of "?r - (e + 1) + 1"] by (simp only:)
    qed
    moreover have "0 \<le> ?r - (e + 1)"
    proof (rule ccontr)
      assume "\<not> 0 \<le> ?r - (e + 1)"
      then have "?r - (e + 1) + 1 \<le> 0" by simp
      then have "power_int (2::real) (?r - (e + 1) + 1) \<le> power_int 2 0"
        by (rule power_int_increasing) simp
      with calculation(1) big show False by simp
    qed
    ultimately show ?thesis using big by simp
  next
    case tiny
    let ?r = "binade fuel (a * 2) (e - 1)"
    have "power_int 2 (?r - (e - 1)) \<le> a * 2 \<and> a * 2 < power_int 2 (?r - (e - 1) + 1)
          \<and> \<bar>?r - (e - 1)\<bar> \<le> int fuel"
    proof (rule Suc.IH)
      show "power_int 2 (- int fuel) \<le> a * 2" using Suc.prems(1) lo by simp
      show "a * 2 < power_int 2 (int fuel + 1)" using tiny large by simp
    qed
    moreover have "power_int (2::real) (?r - (e - 1)) = 2 * power_int 2 (?r - e)"
    proof -
      have "?r - e + 1 = ?r - (e - 1)" by simp
      then show ?thesis using two_powi_Suc [of "?r - e"] by (simp only:)
    qed
    moreover have "power_int (2::real) (?r - (e - 1) + 1) = 2 * power_int 2 (?r - e + 1)"
    proof -
      have "?r - e + 1 + 1 = ?r - (e - 1) + 1" by simp
      then show ?thesis using two_powi_Suc [of "?r - e + 1"] by (simp only:)
    qed
    moreover have "?r - (e - 1) \<le> 0"
    proof (rule ccontr)
      assume "\<not> ?r - (e - 1) \<le> 0"
      then have "1 \<le> ?r - (e - 1)" by simp
      then have "power_int (2::real) 1 \<le> power_int 2 (?r - (e - 1))"
        by (rule power_int_increasing) simp
      with calculation(1) tiny show False by simp
    qed
    ultimately show ?thesis using tiny by simp
  next
    case unit
    then show ?thesis by simp
  qed
qed

lemma binade_tiny:
  assumes "0 < a" and "a < power_int 2 (- int fuel)"
  shows "binade fuel a e = e - int fuel"
  using assms
proof (induction fuel arbitrary: a e)
  case 0
  then show ?case by simp
next
  case (Suc fuel)
  have "- int fuel - 1 = - int (Suc fuel)" by simp
  then have lo: "power_int 2 (- int fuel) = 2 * power_int (2::real) (- int (Suc fuel))"
    using two_powi_pred [of "- int fuel"] by (simp only:)
  have "power_int (2::real) (- int (Suc fuel)) \<le> power_int 2 0"
    by (rule power_int_increasing) simp_all
  with Suc.prems(2) have a: "a < 1" by simp
  have "binade fuel (a * 2) (e - 1) = e - 1 - int fuel"
    using Suc.prems lo by (intro Suc.IH) simp_all
  with a show ?case by simp
qed

lemma binade_huge:
  assumes "power_int 2 (int fuel) \<le> a"
  shows "binade fuel a e = e + int fuel"
  using assms
proof (induction fuel arbitrary: a e)
  case 0
  then show ?case by simp
next
  case (Suc fuel)
  have "int fuel + 1 = int (Suc fuel)" by simp
  then have hi: "power_int 2 (int (Suc fuel)) = 2 * power_int (2::real) (int fuel)"
    using two_powi_Suc [of "int fuel"] by (simp only:)
  have "power_int (2::real) 1 \<le> power_int 2 (int (Suc fuel))"
    by (rule power_int_increasing) simp_all
  with Suc.prems have a: "2 \<le> a" by simp
  have "binade fuel (a / 2) (e + 1) = e + 1 + int fuel"
    using Suc.prems hi by (intro Suc.IH) simp
  with a show ?case by simp
qed

lemma exponent_unique:
  assumes "power_int 2 k \<le> (a::real)" and "a < power_int 2 (k + 1)"
    and "power_int 2 j \<le> a" and "a < power_int 2 (j + 1)"
  shows "k = (j::int)"
proof (rule ccontr)
  assume "k \<noteq> j"
  then consider "k + 1 \<le> j" | "j + 1 \<le> k" by linarith
  then show False
  proof cases
    case 1
    then have "power_int (2::real) (k + 1) \<le> power_int 2 j"
      by (rule power_int_increasing) simp
    with assms(2,3) show False by simp
  next
    case 2
    then have "power_int (2::real) (j + 1) \<le> power_int 2 k"
      by (rule power_int_increasing) simp
    with assms(1,4) show False by simp
  qed
qed

lemma binade_correct:
  assumes "power_int 2 k \<le> a" and "a < power_int 2 (k + 1)" and "\<bar>k\<bar> \<le> int fuel"
  shows "binade fuel a 0 = k"
proof -
  have "power_int (2::real) (- int fuel) \<le> power_int 2 k"
    using assms(3) by (intro power_int_increasing) simp_all
  with assms(1) have lo: "power_int 2 (- int fuel) \<le> a" by simp
  have "power_int (2::real) (k + 1) \<le> power_int 2 (int fuel + 1)"
    using assms(3) by (intro power_int_increasing) simp_all
  with assms(2) have hi: "a < power_int 2 (int fuel + 1)" by simp
  from binade_bounds [OF lo hi, of 0]
  have "power_int 2 (binade fuel a 0) \<le> a" and "a < power_int 2 (binade fuel a 0 + 1)"
    by simp_all
  then show ?thesis
    using assms(1,2) by (rule exponent_unique)
qed

lemma round_half_even_cases:
  "round_half_even x = \<lfloor>x\<rfloor> \<or> round_half_even x = \<lfloor>x\<rfloor> + 1"
  by (simp add: round_half_even_def Let_def)

lemma round_half_even_int [simp]: "round_half_even (of_int n) = n"
  by (simp add: round_half_even_def)

lemma round_half_even_nonneg: "0 \<le> x \<Longrightarrow> 0 \<le> round_half_even x"
  using round_half_even_cases [of x] by (auto simp: zero_le_floor)

lemma round_half_even_le:
  assumes "x \<le> of_int n"
  shows "round_half_even x \<le> n"
proof (cases "x = of_int n")
  case True
  then show ?thesis by simp
next
  case False
  with assms have "x < of_int n" by simp
  then have "\<lfloor>x\<rfloor> < n" by (simp add: floor_less_iff)
  with round_half_even_cases [of x] show ?thesis by auto
qed

lemma round_half_even_ge:
  assumes "of_int n \<le> x"
  shows "n \<le> round_half_even x"
proof -
  from assms have "n \<le> \<lfloor>x\<rfloor>" by (simp add: le_floor_iff)
  with round_half_even_cases [of x] show ?thesis by auto
qed

lemma round_half_even_near:
  assumes "\<bar>x - of_int m\<bar> < 1 / 2 \<or> (\<bar>x - of_int m\<bar> = 1 / 2 \<and> even m)"
  shows "round_half_even x = m"
proof (cases "of_int m \<le> x")
  case True
  with assms have "\<lfloor>x\<rfloor> = m" by (intro floor_unique) auto
  with True assms show ?thesis
    by (auto simp: round_half_even_def Let_def)
next
  case False
  with assms have f: "\<lfloor>x\<rfloor> = m - 1" by (intro floor_unique) auto
  with False assms show ?thesis
    by (auto simp: round_half_even_def Let_def)
qed

lemma round_half_even_small: "0 \<le> x \<Longrightarrow> x < 1 / 2 \<Longrightarrow> round_half_even x = 0"
  by (rule round_half_even_near) simp

lemma binary64_minus: "binary64 (- x) = - binary64 x"
  by (simp add: binary64_def Let_def)

lemma binary64_zero [simp]: "binary64 0 = 0"
  by (simp add: binary64_def)

lemma binade_upper:
  assumes "0 < a" and "a < power_int 2 (j + 1)"
  shows "binade 1100 a 0 \<le> max j (- 1100)"
proof -
  consider (tiny) "a < power_int 2 (- 1100)" | (huge) "power_int 2 1101 \<le> a"
    | (mid) "power_int 2 (- 1100) \<le> a" "a < power_int 2 1101" by linarith
  then show ?thesis
  proof cases
    case tiny
    then have "binade 1100 a 0 = 0 - int 1100"
      using assms(1) by (intro binade_tiny) simp_all
    then show ?thesis by simp
  next
    case huge
    have "power_int (2::real) 1100 \<le> power_int 2 1101"
      by (rule power_int_increasing) simp_all
    with huge have "binade 1100 a 0 = 0 + int 1100"
      by (intro binade_huge) simp
    moreover have "1100 \<le> j"
    proof (rule ccontr)
      assume "\<not> 1100 \<le> j"
      then have "j + 1 \<le> 1101" by simp
      then have "power_int (2::real) (j + 1) \<le> power_int 2 1101"
        by (rule power_int_increasing) simp
      with huge assms(2) show False by simp
    qed
    ultimately show ?thesis by simp
  next
    case mid
    from binade_bounds [of 1100 a 0] mid
    have lo: "power_int 2 (binade 1100 a 0) \<le> a" by simp
    have "binade 1100 a 0 \<le> j"
    proof (rule ccontr)
      assume "\<not> binade 1100 a 0 \<le> j"
      then have "j + 1 \<le> binade 1100 a 0" by simp
      then have "power_int (2::real) (j + 1) \<le> power_int 2 (binade 1100 a 0)"
        by (rule power_int_increasing) simp
      with lo assms(2) show False by simp
    qed
    then show ?thesis by simp
  qed
qed

lemma binade_within:
  assumes "power_int 2 (- 1100) \<le> a" and "a < power_int 2 1100"
  shows "a < power_int 2 (binade 1100 a 0 + 1)"
proof -
  have "power_int (2::real) 1100 \<le> power_int 2 1101"
    by (rule power_int_increasing) simp_all
  with assms(2) have "a < power_int 2 1101" by simp
  with binade_bounds [of 1100 a 0] assms(1) show ?thesis by simp
qed

lemma ulp_split:
  "power_int (2::real) e = 2 ^ 52 * power_int 2 (e - 52)"
  using power_int_add [of "2::real" 52 "e - 52"] by simp

text \<open>A number that is a 53-bit integer times a power of two no smaller than \<open>2 ^ - 1074\<close>.\<close>

lemma binary64_exact:
  assumes "\<bar>m\<bar> < 2 ^ 53" and "- 1074 \<le> j"
  shows "binary64 (of_int m * power_int 2 j) = of_int m * power_int 2 j"
proof (cases "m = 0")
  case True
  then show ?thesis by simp
next
  case False
  define x :: real where "x = of_int m * power_int 2 j"
  define e where "e = max (binade 1100 \<bar>x\<bar> 0) (- 1022)"
  define u :: real where "u = power_int 2 (e - 52)"
  have pj: "0 < power_int (2::real) j" by (simp add: zero_less_power_int)
  have a: "\<bar>x\<bar> = of_int \<bar>m\<bar> * power_int 2 j"
    using pj by (simp add: x_def abs_mult)
  have apos: "0 < \<bar>x\<bar>" using False pj by (simp add: x_def)
  have "of_int \<bar>m\<bar> < (2::real) ^ 53"
  proof -
    from assms(1) have "(of_int \<bar>m\<bar> :: real) < of_int ((2::int) ^ 53)"
      by (simp only: of_int_less_iff)
    then show ?thesis by simp
  qed
  then have "of_int \<bar>m\<bar> * power_int 2 j < 2 ^ 53 * power_int (2::real) j"
    using pj by (simp only: mult_strict_right_mono)
  also have "\<dots> = power_int 2 (j + 52 + 1)"
    using power_int_add [of "2::real" 53 j] by (simp add: algebra_simps)
  finally have "\<bar>x\<bar> < power_int 2 (j + 52 + 1)"
    by (simp only: a)
  with apos have "binade 1100 \<bar>x\<bar> 0 \<le> max (j + 52) (- 1100)"
    by (rule binade_upper)
  with assms(2) have ke: "e \<le> j + 52" by (simp add: e_def)
  define d where "d = nat (j + 52 - e)"
  have split: "power_int (2::real) j = 2 ^ d * u"
  proof -
    have "j = int d + (e - 52)" using ke by (simp add: d_def)
    then have "power_int (2::real) j = power_int 2 (int d + (e - 52))" by simp
    also have "\<dots> = power_int 2 (int d) * power_int 2 (e - 52)"
      by (rule power_int_add) simp
    finally show ?thesis by (simp add: u_def)
  qed
  have u: "0 < u" by (simp add: u_def zero_less_power_int)
  have au: "\<bar>x\<bar> = of_int (\<bar>m\<bar> * 2 ^ d) * u"
    by (simp add: a split)
  then have "\<bar>x\<bar> / u = of_int (\<bar>m\<bar> * 2 ^ d)"
    using u by simp
  then have r: "round_half_even (\<bar>x\<bar> / u) = \<bar>m\<bar> * 2 ^ d"
    by (simp only: round_half_even_int)
  have "binary64 x = sgn x * of_int (round_half_even (\<bar>x\<bar> / u)) * u"
    using apos by (simp add: binary64_def Let_def e_def u_def)
  also have "\<dots> = sgn x * of_int (\<bar>m\<bar> * 2 ^ d) * u"
    by (simp only: r)
  also have "\<dots> = sgn x * \<bar>x\<bar>"
    by (simp only: au mult.assoc)
  also have "\<dots> = x"
    by (simp only: mult_sgn_abs)
  finally show ?thesis by (simp only: x_def)
qed

lemma binary64_unfold:
  assumes "x \<noteq> 0"
  shows "binary64 x =
           sgn x * of_int (round_half_even
                             (\<bar>x\<bar> / power_int 2 (max (binade 1100 \<bar>x\<bar> 0) (- 1022) - 52)))
             * power_int 2 (max (binade 1100 \<bar>x\<bar> 0) (- 1022) - 52)"
  using assms by (simp add: binary64_def Let_def)

lemma sgn_times_int:
  assumes "x \<noteq> 0"
  shows "sgn x * of_int n = (of_int (if x < 0 then - n else n) :: real)"
  using assms by (simp add: sgn_if)

text \<open>Every value of \<open>binary64\<close> below \<open>2 ^ 1024\<close> in magnitude is a double.\<close>

lemma binary64_repr:
  assumes "\<bar>binary64 x\<bar> < 2 ^ 1024"
  shows "\<exists>m j. binary64 x = of_int m * power_int 2 j \<and> \<bar>m\<bar> < 2 ^ 53 \<and> - 1074 \<le> j"
proof (cases "x = 0")
  case True
  have "binary64 x = of_int 0 * power_int 2 0 \<and> \<bar>0::int\<bar> < 2 ^ 53 \<and> - 1074 \<le> (0::int)"
    using True by simp
  then show ?thesis by blast
next
  case False
  define a where "a = \<bar>x\<bar>"
  define k where "k = binade 1100 a 0"
  define e where "e = max k (- 1022)"
  define u :: real where "u = power_int 2 (e - 52)"
  define n where "n = round_half_even (a / u)"
  have apos: "0 < a" using False by (simp add: a_def)
  have u: "0 < u" by (simp add: u_def zero_less_power_int)
  have val: "binary64 x = sgn x * of_int n * u"
    using binary64_unfold [OF False] by (simp add: a_def k_def e_def u_def n_def)
  have n0: "0 \<le> n"
    unfolding n_def using apos u by (intro round_half_even_nonneg) simp
  have absval: "\<bar>binary64 x\<bar> = of_int n * u"
    using False n0 u by (simp add: val abs_mult)
  have e: "- 1022 \<le> e" by (simp add: e_def)
  have nle: "n \<le> 2 ^ 53"
  proof -
    consider (tiny) "a < power_int 2 (- 1100)" | (huge) "power_int 2 1100 \<le> a"
      | (mid) "power_int 2 (- 1100) \<le> a" "a < power_int 2 1100" by linarith
    then show ?thesis
    proof cases
      case tiny
      then have "k = 0 - int 1100"
        unfolding k_def using apos by (intro binade_tiny) simp_all
      then have "e = - 1022" by (simp add: e_def)
      then have uv: "u = power_int 2 (- 1074)" by (simp add: u_def)
      have "power_int (2::real) (- 1100) = power_int 2 (- 26) * power_int 2 (- 1074)"
        using power_int_add [of "2::real" "- 26" "- 1074"] by simp
      with tiny have "a / u < power_int 2 (- 26)"
        using u by (simp add: uv field_simps)
      also have "\<dots> < 1 / 2" by simp
      finally have "n = 0"
        unfolding n_def using apos u by (intro round_half_even_small) simp_all
      then show ?thesis by simp
    next
      case huge
      then have "k = 0 + int 1100"
        unfolding k_def by (intro binade_huge) simp
      then have "e = 1100" by (simp add: e_def)
      then have uv: "u = power_int 2 1048" by (simp add: u_def)
      have p: "power_int (2::real) 1100 = 2 ^ 52 * power_int 2 1048"
        using power_int_add [of "2::real" 52 1048] by simp
      with huge have "of_int ((2::int) ^ 52) \<le> a / u"
        using u by (simp add: uv field_simps)
      then have "2 ^ 52 \<le> n"
        unfolding n_def by (rule round_half_even_ge)
      then have "(of_int ((2::int) ^ 52) :: real) \<le> of_int n"
        by (simp only: of_int_le_iff)
      then have "2 ^ 52 * u \<le> of_int n * u"
        using u by simp
      then have "power_int 2 1100 \<le> \<bar>binary64 x\<bar>"
        by (simp add: absval uv p)
      moreover have "(2::real) ^ 1024 \<le> power_int 2 1100"
        using power_int_increasing [of 1024 1100 "2::real"] by simp
      ultimately show ?thesis using assms by simp
    next
      case mid
      then have "a < power_int 2 (k + 1)"
        unfolding k_def by (rule binade_within)
      also have "\<dots> \<le> power_int 2 (e + 1)"
        by (rule power_int_increasing) (simp_all add: e_def)
      also have "\<dots> = 2 ^ 53 * u"
        using power_int_add [of "2::real" 53 "e - 52"] by (simp add: u_def algebra_simps)
      finally have "a / u \<le> of_int ((2::int) ^ 53)"
        using u by (simp add: field_simps)
      then show ?thesis
        unfolding n_def by (rule round_half_even_le)
    qed
  qed
  show ?thesis
  proof (cases "n = 2 ^ 53")
    case True
    have "power_int (2::real) (e - 51) = 2 * u"
      using power_int_add [of "2::real" 1 "e - 52"] by (simp add: u_def algebra_simps)
    then have "binary64 x = of_int (if x < 0 then - (2 ^ 52) else 2 ^ 52) * power_int 2 (e - 51)"
      using False by (simp add: val True sgn_if)
    moreover have "\<bar>if x < 0 then - (2 ^ 52) else (2 ^ 52 :: int)\<bar> < 2 ^ 53" by simp
    moreover have "- 1074 \<le> e - 51" using e by simp
    ultimately show ?thesis by blast
  next
    case False
    with nle n0 have "\<bar>if x < 0 then - n else n\<bar> < 2 ^ 53" by simp
    moreover have "binary64 x = of_int (if x < 0 then - n else n) * power_int 2 (e - 52)"
      using \<open>x \<noteq> 0\<close> by (simp add: val u_def sgn_if)
    moreover have "- 1074 \<le> e - 52" using e by simp
    ultimately show ?thesis by blast
  qed
qed

lemma binary64_idem:
  assumes "\<bar>binary64 x\<bar> < 2 ^ 1024"
  shows "binary64 (binary64 x) = binary64 x"
proof -
  from binary64_repr [OF assms] obtain m j where
    "binary64 x = of_int m * power_int 2 j" and "\<bar>m\<bar> < 2 ^ 53" and "- 1074 \<le> j"
    by blast
  then show ?thesis
    using binary64_exact [of m j] by simp
qed

lemma round64_F64: "round64 x = F64 v \<longleftrightarrow> v = binary64 x \<and> \<bar>binary64 x\<bar> < 2 ^ 1024"
  by (auto simp: round64_def Let_def abs_less_iff not_le)

lemma round64_idem:
  assumes "round64 x = F64 v"
  shows "round64 v = F64 v"
  using assms binary64_idem [of x] by (simp add: round64_F64)

declare pairwise_sum.simps [simp del]
declare lanes_loop.simps [simp del]

lemma binary64_nearest:
  assumes "0 < x" and "2 ^ 52 < m" and "m < 2 ^ 53" and "- 1022 \<le> k" and "k \<le> 1023"
    and "\<bar>x - of_int m * power_int 2 (k - 52)\<bar> < power_int 2 (k - 52) / 2
         \<or> (\<bar>x - of_int m * power_int 2 (k - 52)\<bar> = power_int 2 (k - 52) / 2 \<and> even m)"
  shows "binary64 x = of_int m * power_int 2 (k - 52)"
proof -
  define u where "u = power_int (2::real) (k - 52)"
  have u: "0 < u" by (simp add: u_def zero_less_power_int)
  have pk: "power_int (2::real) k = 2 ^ 52 * u"
    unfolding u_def by (rule ulp_split)
  have pk1: "power_int (2::real) (k + 1) = 2 ^ 53 * u"
    using two_powi_Suc [of k] pk by simp
  have m1: "(2::real) ^ 52 + 1 \<le> of_int m"
  proof -
    from assms(2) have "(2::int) ^ 52 + 1 \<le> m" by simp
    then have "(of_int ((2::int) ^ 52 + 1) :: real) \<le> of_int m" by (simp only: of_int_le_iff)
    then show ?thesis by simp
  qed
  have m2: "of_int m + 1 \<le> (2::real) ^ 53"
  proof -
    from assms(3) have "m + 1 \<le> (2::int) ^ 53" by simp
    then have "(of_int (m + 1) :: real) \<le> of_int ((2::int) ^ 53)" by (simp only: of_int_le_iff)
    then show ?thesis by simp
  qed
  from assms(6) have near: "\<bar>x - of_int m * u\<bar> \<le> u / 2"
    unfolding u_def by auto
  have lo: "power_int 2 k \<le> x"
  proof -
    have "2 ^ 52 * u \<le> (of_int m - 1) * u" using m1 u by simp
    also have "\<dots> \<le> of_int m * u - u / 2" using u by (simp add: algebra_simps)
    also have "\<dots> \<le> x" using near by linarith
    finally show ?thesis by (simp add: pk)
  qed
  have hi: "x < power_int 2 (k + 1)"
  proof -
    have "x \<le> of_int m * u + u / 2" using near by linarith
    also have "\<dots> < (of_int m + 1) * u" using u by (simp add: algebra_simps)
    also have "\<dots> \<le> 2 ^ 53 * u" using m2 u by simp
    finally show ?thesis by (simp add: pk1)
  qed
  have "\<bar>k\<bar> \<le> int 1100" using assms(4,5) by simp
  with lo hi assms(1) have "binade 1100 \<bar>x\<bar> 0 = k"
    using binade_correct [of k x 1100] by simp
  with assms(4) have e: "max (binade 1100 \<bar>x\<bar> 0) (- 1022) = k" by simp
  have "x / u - of_int m = (x - of_int m * u) / u"
    using u by (simp add: field_simps)
  then have "\<bar>x / u - of_int m\<bar> = \<bar>x - of_int m * u\<bar> / u"
    using u by (simp only: abs_divide abs_of_pos)
  with assms(6) u
  have "\<bar>x / u - of_int m\<bar> < 1 / 2 \<or> (\<bar>x / u - of_int m\<bar> = 1 / 2 \<and> even m)"
    unfolding u_def [symmetric] by (auto simp: field_simps)
  then have r: "round_half_even (x / u) = m" by (rule round_half_even_near)
  from assms(1) have "x \<noteq> 0" by simp
  from binary64_unfold [OF this] show ?thesis
    unfolding e u_def [symmetric] using assms(1) r by simp
qed

lemma round64_nearest:
  assumes "0 < x" and "2 ^ 52 < m" and "m < 2 ^ 53" and "- 1022 \<le> k" and "k \<le> 1023"
    and "\<bar>x - of_int m * power_int 2 (k - 52)\<bar> < power_int 2 (k - 52) / 2
         \<or> (\<bar>x - of_int m * power_int 2 (k - 52)\<bar> = power_int 2 (k - 52) / 2 \<and> even m)"
  shows "round64 x = F64 (of_int m * power_int 2 (k - 52))"
proof -
  define u where "u = power_int (2::real) (k - 52)"
  have u: "0 < u" by (simp add: u_def zero_less_power_int)
  have b: "binary64 x = of_int m * u"
    unfolding u_def using assms by (rule binary64_nearest)
  have "u \<le> power_int 2 971"
    unfolding u_def using assms(5) by (intro power_int_increasing) simp_all
  then have u971: "u \<le> 2 ^ 971" by simp
  have m0: "(0::real) < of_int m" using assms(2) by simp
  have "(of_int m :: real) < of_int ((2::int) ^ 53)"
    using assms(3) by (simp only: of_int_less_iff)
  then have m53: "(of_int m :: real) < 2 ^ 53" by simp
  have "of_int m * u < 2 ^ 53 * u" using m53 u by simp
  also have "\<dots> \<le> 2 ^ 53 * 2 ^ 971" using u971 by simp
  also have "\<dots> = (2::real) ^ 1024" by (simp add: power_add [symmetric])
  finally have "of_int m * u < (2::real) ^ 1024" .
  moreover have "0 < of_int m * u" using m0 u by simp
  ultimately have "\<bar>binary64 x\<bar> < 2 ^ 1024" unfolding b by simp
  then show ?thesis
    unfolding u_def [symmetric] by (simp add: round64_F64 b)
qed

lemma round64_exact:
  assumes "\<bar>m\<bar> < 2 ^ 53" and "- 1074 \<le> j" and "j \<le> 971"
  shows "round64 (of_int m * power_int 2 j) = F64 (of_int m * power_int 2 j)"
proof -
  define u where "u = power_int (2::real) j"
  have u: "0 < u" by (simp add: u_def zero_less_power_int)
  have b: "binary64 (of_int m * u) = of_int m * u"
    unfolding u_def using assms(1,2) by (rule binary64_exact)
  have "u \<le> power_int 2 971"
    unfolding u_def using assms(3) by (intro power_int_increasing) simp_all
  then have u971: "u \<le> 2 ^ 971" by simp
  have "(of_int \<bar>m\<bar> :: real) < of_int ((2::int) ^ 53)"
    using assms(1) by (simp only: of_int_less_iff)
  then have m53: "\<bar>of_int m :: real\<bar> < 2 ^ 53" by simp
  have "\<bar>of_int m * u\<bar> = \<bar>of_int m :: real\<bar> * u" using u by (simp add: abs_mult)
  also have "\<dots> < 2 ^ 53 * u" using m53 u by simp
  also have "\<dots> \<le> 2 ^ 53 * 2 ^ 971" using u971 by simp
  also have "\<dots> = (2::real) ^ 1024" by (simp add: power_add [symmetric])
  finally have "\<bar>binary64 (of_int m * u)\<bar> < 2 ^ 1024" unfolding b .
  then show ?thesis
    unfolding u_def [symmetric] by (simp add: round64_F64 b)
qed

lemma round64_zero [simp]: "round64 0 = F64 0"
  by (simp add: round64_def)

lemma round64_not_NaN [simp]: "round64 x \<noteq> NaN64" "NaN64 \<noteq> round64 x"
  by (simp_all add: round64_def Let_def)

lemma round64_cases:
  obtains v where "round64 x = F64 v" and "round64 v = F64 v"
  | "round64 x = PosInf" | "round64 x = NegInf"
proof (cases "round64 x")
  case (F64 v)
  then show ?thesis using round64_idem that(1) by blast
qed (use that in simp_all)

lemma pairwise_sum_short:
  "length a < 8 \<Longrightarrow> pairwise_sum a = foldl f64_add (F64 0) a"
  by (simp add: pairwise_sum.simps)

text \<open>The deviation of a single value is zero, or NaN when the value is an infinity.\<close>

lemma pd_std64_single:
  "pd_std64 0 [round64 x] = F64 0 \<or> pd_std64 0 [round64 x] = NaN64"
proof (cases x rule: round64_cases)
  case (1 v)
  then show ?thesis
    by (simp add: pd_std64_def Let_def pairwise_sum_short f64_sub_def)
next
  case 2
  then show ?thesis
    by (simp add: pd_std64_def Let_def pairwise_sum_short f64_sub_def inf_of_sign_def)
next
  case 3
  then show ?thesis
    by (simp add: pd_std64_def Let_def pairwise_sum_short f64_sub_def inf_of_sign_def)
qed

lemma pd_std64_single_ge:
  "float_ge64 (pd_std64 0 [round64 x]) limit \<Longrightarrow> limit \<le> 0"
  using pd_std64_single [of x] by auto

lemma round64_minus: "round64 (- x) = f64_neg (round64 x)"
  by (simp add: round64_def Let_def binary64_minus)

lemma round64_nearest_neg:
  assumes "x < 0" and "2 ^ 52 < m" and "m < 2 ^ 53" and "- 1022 \<le> k" and "k \<le> 1023"
    and "\<bar>- x - of_int m * power_int 2 (k - 52)\<bar> < power_int 2 (k - 52) / 2
         \<or> (\<bar>- x - of_int m * power_int 2 (k - 52)\<bar> = power_int 2 (k - 52) / 2 \<and> even m)"
  shows "round64 x = F64 (- (of_int m * power_int 2 (k - 52)))"
proof -
  from assms(1) have "0 < - x" by simp
  then have "round64 (- x) = F64 (of_int m * power_int 2 (k - 52))"
    using assms(2-6) by (rule round64_nearest)
  then have "f64_neg (round64 (- x)) = F64 (- (of_int m * power_int 2 (k - 52)))"
    by simp
  then show ?thesis
    by (simp add: round64_minus [symmetric])
qed

lemma pd_std64_single_F64:
  assumes "round64 v = F64 v"
  shows "pd_std64 0 [F64 v] = F64 0"
  using assms by (simp add: pd_std64_def Let_def pairwise_sum_short f64_sub_def)

section \<open>The sample values in binary64\<close>

text \<open>The doubles nearest to the decimal numbers of the scenarios and of the thresholds.\<close>

lemma read_0_02: "round64 (1 / 50) = F64 (5764607523034235 / 288230376151711744)"
  using round64_nearest [of "1 / 50" 5764607523034235 "-6"] by simp

lemma read_minus_0_03: "round64 (- (3 / 100)) = F64 (- (1080863910568919 / 36028797018963968))"
  using round64_nearest_neg [of "- (3 / 100)" 8646911284551352 "-6"] by simp

lemma read_0_12: "round64 (3 / 25) = F64 (1080863910568919 / 9007199254740992)"
  using round64_nearest [of "3 / 25" 8646911284551352 "-4"] by simp

lemma read_minus_0_02: "round64 (- (1 / 50)) = F64 (- (5764607523034235 / 288230376151711744))"
  using round64_nearest_neg [of "- (1 / 50)" 5764607523034235 "-6"] by simp

lemma read_0_10: "round64 (1 / 10) = F64 (3602879701896397 / 36028797018963968)"
  using round64_nearest [of "1 / 10" 7205759403792794 "-4"] by simp

lemma read_0_20: "round64 (1 / 5) = F64 (3602879701896397 / 18014398509481984)"
  using round64_nearest [of "1 / 5" 7205759403792794 "-3"] by simp

lemma limit_0_5: "binary64 (1 / 2) = 1 / 2"
  using binary64_exact [of "1" "-1"] by simp

lemma limit_0_1: "binary64 (1 / 10) = 3602879701896397 / 36028797018963968"
  using binary64_nearest [of "1 / 10" 7205759403792794 "-4"] by simp

lemma limit_0_05: "binary64 (1 / 20) = 3602879701896397 / 72057594037927936"
  using binary64_nearest [of "1 / 20" 7205759403792794 "-5"] by simp

lemma limit_0_01: "binary64 (1 / 100) = 5764607523034235 / 576460752303423488"
  using binary64_nearest [of "1 / 100" 5764607523034235 "-7"] by simp

lemma limit_1_5: "binary64 (3 / 2) = 3 / 2"
  using binary64_exact [of "3" "-1"] by simp

text \<open>
  The quotients of Rule A on scenarios 2 and 1. The exact quotient of the two doubles of
  scenario 2 lies below 1.5 and is rounded to it.
\<close>

lemma ratio_scenario_2: "round64 (8646911284551352 / 5764607523034235) = F64 (3 / 2)"
  using round64_nearest [of "8646911284551352 / 5764607523034235" 6755399441055744 "0"] by simp

lemma ratio_scenario_1:
  "round64 (5764607523034235 / 34587645138205408)
     = F64 (3002399751580331 / 18014398509481984)"
  using round64_nearest [of "5764607523034235 / 34587645138205408" 6004799503160662 "-3"] by simp

lemma exact_ratio_scenario_2:
  "(1080863910568919 / 36028797018963968) / (5764607523034235 / 288230376151711744)
     < (3 / 2 :: real)"
  by simp

text \<open>
  The deviation of the two anode deltas of scenario 3, operation by operation: every
  double passes through an operation with zero unchanged, the sum of the two values is
  a tie that goes to the even significand, and the root of the variance is the double
  nearest to 0.05.
\<close>

lemma double_0_10:
  "round64 (3602879701896397 / 36028797018963968)
     = F64 (3602879701896397 / 36028797018963968)"
  using round64_exact [of "3602879701896397" "-55"] by simp

lemma double_0_20:
  "round64 (3602879701896397 / 18014398509481984)
     = F64 (3602879701896397 / 18014398509481984)"
  using round64_exact [of "3602879701896397" "-54"] by simp

lemma sum_scenario_3:
  "round64 (10808639105689191 / 36028797018963968)
     = F64 (1351079888211149 / 4503599627370496)"
  using round64_nearest [of "10808639105689191 / 36028797018963968" 5404319552844596 "-2"] by simp

lemma mean_scenario_3:
  "round64 (1351079888211149 / 9007199254740992)
     = F64 (1351079888211149 / 9007199254740992)"
  using round64_exact [of "1351079888211149" "-53"] by simp

lemma distance_1_scenario_3:
  "round64 (1801439850948199 / 36028797018963968)
     = F64 (1801439850948199 / 36028797018963968)"
  using round64_exact [of "1801439850948199" "-55"] by simp

lemma distance_2_scenario_3:
  "round64 (- (900719925474099 / 18014398509481984))
     = F64 (- (900719925474099 / 18014398509481984))"
  using round64_exact [of "- 900719925474099" "-54"] by simp

lemma square_1_scenario_3:
  "round64 (3245185536584269429559381343601 / 1298074214633706907132624082305024)
     = F64 (5764607523034239 / 2305843009213693952)"
  using round64_nearest
      [of "3245185536584269429559381343601 / 1298074214633706907132624082305024" 5764607523034239 "-9"]
  by simp

lemma square_2_scenario_3:
  "round64 (811296384146066456669919861801 / 324518553658426726783156020576256)
     = F64 (720575940379279 / 288230376151711744)"
  using round64_nearest
      [of "811296384146066456669919861801 / 324518553658426726783156020576256" 5764607523034232 "-9"]
  by simp

lemma double_square_1:
  "round64 (5764607523034239 / 2305843009213693952)
     = F64 (5764607523034239 / 2305843009213693952)"
  using round64_exact [of "5764607523034239" "-61"] by simp

lemma sum_squares_scenario_3:
  "round64 (11529215046068471 / 2305843009213693952)
     = F64 (1441151880758559 / 288230376151711744)"
  using round64_nearest
      [of "11529215046068471 / 2305843009213693952" 5764607523034236 "-8"]
  by simp

lemma variance_scenario_3:
  "round64 (1441151880758559 / 576460752303423488)
     = F64 (1441151880758559 / 576460752303423488)"
  using round64_exact [of "1441151880758559" "-59"] by simp

lemma root_scenario_3:
  "round64 (sqrt (1441151880758559 / 576460752303423488))
     = F64 (3602879701896397 / 72057594037927936)"
proof -
  let ?v = "1441151880758559 / 576460752303423488 :: real"
  let ?y = "3602879701896397 / 72057594037927936 :: real"
  let ?h = "1 / 288230376151711744 :: real"
  have "(?y - ?h)\<^sup>2 < ?v"
    by (simp add: power2_eq_square)
  then have lo: "?y - ?h < sqrt ?v"
    by (rule real_less_rsqrt)
  have "?v < (?y + ?h)\<^sup>2"
    by (simp add: power2_eq_square)
  then have hi: "sqrt ?v < ?y + ?h"
    by (intro real_less_lsqrt) simp_all
  have pos: "0 < sqrt ?v" by simp
  have h: "power_int (2::real) (-5 - 52) / 2 = ?h" by simp
  from lo hi have "\<bar>sqrt ?v - ?y\<bar> < ?h" by linarith
  moreover have "?y = of_int 7205759403792794 * power_int (2::real) (-5 - 52)" by simp
  ultimately have "\<bar>sqrt ?v - of_int 7205759403792794 * power_int 2 (-5 - 52)\<bar>
                     < power_int 2 (-5 - 52) / 2"
    by (simp only: h)
  then have "round64 (sqrt ?v) = F64 (of_int 7205759403792794 * power_int 2 (-5 - 52))"
    by (intro round64_nearest) (simp_all only: pos, simp_all)
  then show ?thesis
    by simp
qed

lemma pd_std64_scenario_3:
  "pd_std64 0 [F64 (3602879701896397 / 36028797018963968),
                F64 (3602879701896397 / 18014398509481984)]
     = F64 (3602879701896397 / 72057594037927936)"
  by (simp add: pd_std64_def Let_def pairwise_sum_short f64_sub_def
        double_0_10 double_0_20 sum_scenario_3 mean_scenario_3 distance_1_scenario_3
        distance_2_scenario_3 square_1_scenario_3 square_2_scenario_3 double_square_1
        sum_squares_scenario_3 variance_scenario_3 root_scenario_3)

section \<open>The pandas reductions and the loops in closed form\<close>

lemma valid_values_Fin: "valid_values (map Fin xs) = xs"
  by (induction xs) auto

lemma pd_mean_Fin: "xs \<noteq> [] \<Longrightarrow> pd_mean (map Fin xs) = Fin (arithmetic_mean xs)"
  by (simp add: pd_mean_def valid_values_Fin arithmetic_mean_def)

lemma sum_sq_swap: "map (\<lambda>v. (m - v)\<^sup>2) xs = map (\<lambda>x. (x - m)\<^sup>2) (xs::real list)"
  by (simp add: power2_commute)

lemma pd_std_Fin: "xs \<noteq> [] \<Longrightarrow> pd_std 0 (map Fin xs) = Fin (population_std xs)"
  by (simp add: pd_std_def valid_values_Fin population_std_def arithmetic_mean_def Let_def sum_sq_swap)

lemma fold_max_Max: "fold max xs (x::real) = Max (set (x # xs))"
  using Max.set_eq_fold [of x xs] by simp

lemma fold_min_Min: "fold min xs (x::real) = Min (set (x # xs))"
  using Min.set_eq_fold [of x xs] by simp

text \<open>
  On a column without missing entries the deviation that pandas computes is the
  population standard deviation in floats.
\<close>

lemma pd_std64_population:
  assumes "NaN64 \<notin> set xs" and "xs \<noteq> []"
  shows "pd_std64 0 xs = population_std64 xs"
proof -
  from assms(1) have valid: "filter (\<lambda>v. v \<noteq> NaN64) xs = xs"
    by (induction xs) auto
  from assms(1) have filled: "map (\<lambda>v. if v = NaN64 then F64 0 else v) xs = xs"
    by (induction xs) auto
  from assms(1) have squares:
    "map (\<lambda>v. if v = NaN64 then F64 0 else f64_mul (f64_sub a v) (f64_sub a v)) xs
       = map (\<lambda>x. f64_mul (f64_sub a x) (f64_sub a x)) xs" for a
    by (induction xs) auto
  from assms(2) show ?thesis
    by (simp add: pd_std64_def population_std64_def arithmetic_mean64_def Let_def
          valid filled squares)
qed

lemma pd_std64_empty: "pd_std64 0 [] = NaN64"
  by (simp add: pd_std64_def)

lemma anode_delta_not_NaN: "NaN64 \<notin> set (map anode_delta es)"
  by (auto simp: anode_delta_def)

lemma merged_lookup:
  "merged_thresholds th ''cathode_loss_ratio_threshold''
     = Some (threshold_value th ''cathode_loss_ratio_threshold'' (1 / 2))"
  "merged_thresholds th ''anode_loss_threshold_g''
     = Some (threshold_value th ''anode_loss_threshold_g'' (1 / 10))"
  "merged_thresholds th ''std_dev_instability_threshold_g''
     = Some (threshold_value th ''std_dev_instability_threshold_g'' (1 / 20))"
  by (auto simp: merged_thresholds_def or_empty_def DEFAULT_ANALYSIS_CONFIG_def
        threshold_value_def map_add_def split: option.splits)

lemma getitem_merged:
  "getitem (merged_thresholds th) ''cathode_loss_ratio_threshold'' = Inr (cathode_limit th)"
  "getitem (merged_thresholds th) ''anode_loss_threshold_g'' = Inr (anode_limit th)"
  "getitem (merged_thresholds th) ''std_dev_instability_threshold_g'' = Inr (std_limit th)"
  by (simp_all add: getitem_def merged_lookup cathode_limit_def anode_limit_def std_limit_def)

lemma abs_not_zero: "x \<noteq> F64 0 \<Longrightarrow> f64_abs x \<noteq> F64 0"
  by (cases x) simp_all

lemma check_experiment_eq:
  "check_experiment c a acc e = Inr (acc @ rule_A c e @ rule_B a e)"
  by (simp add: check_experiment_def py_truediv_def rule_A_def rule_B_def rule_A_fires_def
        cathode_ratio_def anode_delta_def cathode_delta_def read_float_def abs_not_zero)

lemma experiments_loop_eq:
  "experiments_loop c a acc es = Inr (acc @ concat (map (\<lambda>e. rule_A c e @ rule_B a e) es))"
  by (induction es arbitrary: acc) (simp_all add: check_experiment_eq)

lemma positive_column64_to_record:
  "positive_column64 (map to_record es) = map anode_delta es"
  by (simp add: positive_column64_def to_record_def read_float_def anode_delta_def)

lemma positive_column_to_record:
  "positive_column (map to_record es) = map Fin (map delta_mass_positive_g es)"
  by (simp add: positive_column_def to_record_def)

lemma check_group_eq:
  "check_group l acc ((el, md), map to_record es) = acc @ rule_C l el md (map anode_delta es)"
proof (cases "es = []")
  case True
  then show ?thesis
    by (simp add: check_group_def rule_C_def positive_column64_def pd_std64_empty)
next
  case False
  then have "pd_std64 0 (map anode_delta es) = population_std64 (map anode_delta es)"
    by (intro pd_std64_population anode_delta_not_NaN) simp
  with False show ?thesis
    by (simp add: check_group_def rule_C_def positive_column64_to_record Let_def)
qed

lemma groups_loop_eq:
  "groups_loop l acc (map (\<lambda>(el, md). ((el, md), map to_record (f el md))) ks)
     = acc @ concat (map (\<lambda>(el, md). rule_C l el md (map anode_delta (f el md))) ks)"
  by (induction ks arbitrary: acc) (auto simp: check_group_eq)

lemma group_key_to_record: "group_key (to_record e) = (electrolyte e, mode e)"
  by (simp add: group_key_def to_record_def)

lemma groupby_to_record:
  "groupby_electrolyte_mode (map to_record es)
     = map (\<lambda>(el, md). ((el, md), map to_record (group_members es el md))) (group_keys es)"
  by (auto simp: groupby_electrolyte_mode_def group_keys_def group_members_def
        filter_map o_def group_key_to_record)

lemma detect_anomalies_eq:
  "detect_anomalies es th =
     Inr (concat (map (\<lambda>e. rule_A (cathode_limit th) e @ rule_B (anode_limit th) e) es)
          @ rule_C_findings (std_limit th) es)"
proof (cases "es = []")
  case True
  then show ?thesis
    by (simp add: detect_anomalies_def getitem_merged rule_C_findings_def group_keys_def)
next
  case False
  then show ?thesis
    by (simp add: detect_anomalies_def getitem_merged experiments_loop_eq
          experiments_to_dataframe_def groupby_to_record groups_loop_eq rule_C_findings_def)
qed

lemma filter_rule_A [simp]:
  "filter (is_type ''HIGH_CATHODE_LOSS'') (rule_A l e) = rule_A l e"
  "filter (is_type ''HIGH_ANODE_LOSS'') (rule_A l e) = []"
  "filter (is_type ''UNSTABLE_RESULTS'') (rule_A l e) = []"
  by (simp_all add: rule_A_def is_type_def)

lemma filter_rule_B [simp]:
  "filter (is_type ''HIGH_CATHODE_LOSS'') (rule_B l e) = []"
  "filter (is_type ''HIGH_ANODE_LOSS'') (rule_B l e) = rule_B l e"
  "filter (is_type ''UNSTABLE_RESULTS'') (rule_B l e) = []"
  by (simp_all add: rule_B_def is_type_def)

lemma filter_rule_C [simp]:
  "filter (is_type ''HIGH_CATHODE_LOSS'') (rule_C l el md ds) = []"
  "filter (is_type ''HIGH_ANODE_LOSS'') (rule_C l el md ds) = []"
  "filter (is_type ''UNSTABLE_RESULTS'') (rule_C l el md ds) = rule_C l el md ds"
  by (simp_all add: rule_C_def is_type_def)

lemma filter_rule_C_findings [simp]:
  "filter (is_type ''HIGH_CATHODE_LOSS'') (rule_C_findings l es) = []"
  "filter (is_type ''HIGH_ANODE_LOSS'') (rule_C_findings l es) = []"
  "filter (is_type ''UNSTABLE_RESULTS'') (rule_C_findings l es) = rule_C_findings l es"
  by (simp_all add: rule_C_findings_def filter_concat o_def split_def)

lemma filter_per_record [simp]:
  "filter (is_type ''HIGH_CATHODE_LOSS'') (concat (map (\<lambda>e. rule_A c e @ rule_B a e) es))
     = concat (map (rule_A c) es)"
  "filter (is_type ''HIGH_ANODE_LOSS'') (concat (map (\<lambda>e. rule_A c e @ rule_B a e) es))
     = concat (map (rule_B a) es)"
  "filter (is_type ''UNSTABLE_RESULTS'') (concat (map (\<lambda>e. rule_A c e @ rule_B a e) es)) = []"
  by (simp_all add: filter_concat o_def)

lemma rule_A_member:
  "a \<in> set (rule_A l e) \<longleftrightarrow>
     rule_A_fires l e \<and>
     a = \<lparr> experiment_id = Experiment.experiment_id e, anomaly_type = ''HIGH_CATHODE_LOSS'',
           message = Cathode_ratio_message (cathode_ratio e) l \<rparr>"
  by (auto simp: rule_A_def)

lemma ex_of_type:
  "(\<exists>a \<in> set xs. anomaly_type a = t \<and> Q a) \<longleftrightarrow> (\<exists>a \<in> set (filter (is_type t) xs). Q a)"
  by (auto simp: is_type_def)

text \<open>The findings of the engine on the scenarios, under the default thresholds.\<close>

lemma default_limits:
  "cathode_limit None = 1 / 2"
  "anode_limit None = 3602879701896397 / 36028797018963968"
  "std_limit None = 3602879701896397 / 72057594037927936"
  by (simp_all add: cathode_limit_def anode_limit_def std_limit_def threshold_value_def
        limit_0_5 limit_0_1 limit_0_05)

lemma deltas_scenario_2:
  "anode_delta scenario_2 = F64 (5764607523034235 / 288230376151711744)"
  "cathode_delta scenario_2 = F64 (- (1080863910568919 / 36028797018963968))"
  "cathode_ratio scenario_2 = F64 (3 / 2)"
  by (simp_all add: anode_delta_def cathode_delta_def cathode_ratio_def scenario_2_def
        read_0_02 read_minus_0_03 ratio_scenario_2)

lemma deltas_scenario_1:
  "anode_delta scenario_1 = F64 (1080863910568919 / 9007199254740992)"
  "cathode_delta scenario_1 = F64 (- (5764607523034235 / 288230376151711744))"
  "cathode_ratio scenario_1 = F64 (3002399751580331 / 18014398509481984)"
  by (simp_all add: anode_delta_def cathode_delta_def cathode_ratio_def scenario_1_def
        read_0_12 read_minus_0_02 ratio_scenario_1)

lemma deltas_scenario_3:
  "anode_delta scenario_3a = F64 (3602879701896397 / 36028797018963968)"
  "anode_delta scenario_3b = F64 (3602879701896397 / 18014398509481984)"
  "cathode_ratio scenario_3a = F64 0"
  "cathode_ratio scenario_3b = F64 0"
  by (simp_all add: anode_delta_def cathode_delta_def cathode_ratio_def scenario_3a_def
        scenario_3b_def read_0_10 read_0_20)

lemma population_std64_single:
  assumes "round64 v = F64 v"
  shows "population_std64 [F64 v] = F64 0"
  using pd_std64_population [of "[F64 v]"] pd_std64_single_F64 [OF assms] by simp

lemma rule_C_findings_single:
  assumes "anode_delta e = F64 v"
  shows "rule_C_findings l [e] =
           (if l \<le> 0
            then [\<lparr> experiment_id = group_id (electrolyte e) (mode e),
                     anomaly_type = ''UNSTABLE_RESULTS'',
                     message = Group_std_message (electrolyte e) (mode e) (F64 0) l \<rparr>]
            else [])"
proof -
  from assms have "round64 v = F64 v"
    unfolding anode_delta_def by (rule round64_idem)
  then have "population_std64 [F64 v] = F64 0"
    by (rule population_std64_single)
  with assms show ?thesis
    by (simp add: rule_C_findings_def group_keys_def group_members_def rule_C_def)
qed

lemma detect_scenario_2:
  "detect_anomalies [scenario_2] None =
     Inr [\<lparr> experiment_id = ''E2'', anomaly_type = ''HIGH_CATHODE_LOSS'',
            message = Cathode_ratio_message (F64 (3 / 2)) (1 / 2) \<rparr>]"
  by (simp add: detect_anomalies_eq default_limits rule_A_def rule_A_fires_def rule_B_def
        deltas_scenario_2 rule_C_findings_single [OF deltas_scenario_2(1)])
    (simp add: scenario_2_def)

section \<open>Rule A\<close>

text \<open>
  The ratio that Rule A compares is the quotient as Python computes it, rounded to a
  double. On scenario 2 the exact quotient of the two stored doubles is below 1.5 and
  the computed one is 1.5, so that under a ratio threshold of 1.5 the engine reports the
  record.
\<close>

lemma rounded_ratio_reaches_threshold:
  "detect_anomalies [scenario_2] (Some high_ratio_threshold) =
     Inr [\<lparr> experiment_id = ''E2'', anomaly_type = ''HIGH_CATHODE_LOSS'',
            message = Cathode_ratio_message (F64 (3 / 2)) (3 / 2) \<rparr>]
   \<and> anode_delta scenario_2 = F64 (5764607523034235 / 288230376151711744)
   \<and> cathode_delta scenario_2 = F64 (- (1080863910568919 / 36028797018963968))
   \<and> \<bar>- (1080863910568919 / 36028797018963968)\<bar> / \<bar>5764607523034235 / 288230376151711744\<bar>
        < (3 / 2 :: real)"
proof -
  have limits: "cathode_limit (Some high_ratio_threshold) = 3 / 2"
    "anode_limit (Some high_ratio_threshold) = 3602879701896397 / 36028797018963968"
    "std_limit (Some high_ratio_threshold) = 3602879701896397 / 72057594037927936"
    by (simp_all add: cathode_limit_def anode_limit_def std_limit_def threshold_value_def
          high_ratio_threshold_def limit_1_5 limit_0_1 limit_0_05)
  have "detect_anomalies [scenario_2] (Some high_ratio_threshold) =
     Inr [\<lparr> experiment_id = ''E2'', anomaly_type = ''HIGH_CATHODE_LOSS'',
            message = Cathode_ratio_message (F64 (3 / 2)) (3 / 2) \<rparr>]"
    by (simp add: detect_anomalies_eq limits rule_A_def rule_A_fires_def rule_B_def
          deltas_scenario_2 rule_C_findings_single [OF deltas_scenario_2(1)])
      (simp add: scenario_2_def)
  then show ?thesis
    by (simp add: deltas_scenario_2)
qed

text \<open>
  Claim C1. For a record of the input whose anode delta is not zero, the engine emits a
  \<^verbatim>\<open>HIGH_CATHODE_LOSS\<close> finding under that record's identifier exactly when the
  ratio of the absolute cathode delta to the absolute anode delta, the quotient of the
  two floats as Python computes it, reaches the merged
  \<^verbatim>\<open>cathode_loss_ratio_threshold\<close>; a record whose anode delta is zero gets no such
  finding, and the call returns a list in every case. The threshold compared with is the
  float of the merged value. The findings of that type are, in order, those of
  \<open>rule_A\<close> on each record; where the identifiers of the input are unique, as the data
  model declares them, a finding of that type under a record's identifier exists exactly
  when the rule fires on that record.
\<close>

theorem rule_A_per_record:
  assumes "e \<in> set es"
  shows "(\<exists>v. merged_thresholds th ''cathode_loss_ratio_threshold'' = Some v
              \<and> cathode_limit th = binary64 v)
     \<and> (\<exists>out. detect_anomalies es th = Inr out
     \<and> filter (is_type ''HIGH_CATHODE_LOSS'') out = concat (map (rule_A (cathode_limit th)) es)
     \<and> (distinct (map Experiment.experiment_id es) \<longrightarrow>
          ((\<exists>a \<in> set out. anomaly_type a = ''HIGH_CATHODE_LOSS''
                 \<and> Anomaly.experiment_id a = Experiment.experiment_id e)
           \<longleftrightarrow> (read_float (delta_mass_positive_g e) \<noteq> F64 0
                \<and> float_ge64
                     (f64_div (f64_abs (read_float (delta_mass_negative_g e)))
                              (f64_abs (read_float (delta_mass_positive_g e))))
                     (cathode_limit th)))))"
proof -
  let ?out = "concat (map (\<lambda>e. rule_A (cathode_limit th) e @ rule_B (anode_limit th) e) es)
          @ rule_C_findings (std_limit th) es"
  let ?hcl = "concat (map (rule_A (cathode_limit th)) es)"
  have limit: "\<exists>v. merged_thresholds th ''cathode_loss_ratio_threshold'' = Some v
                  \<and> cathode_limit th = binary64 v"
    by (simp add: merged_lookup cathode_limit_def)
  have out: "detect_anomalies es th = Inr ?out"
    by (rule detect_anomalies_eq)
  have hcl: "filter (is_type ''HIGH_CATHODE_LOSS'') ?out = ?hcl"
    by simp
  have iff: "(\<exists>a \<in> set ?out. anomaly_type a = ''HIGH_CATHODE_LOSS''
                 \<and> Anomaly.experiment_id a = Experiment.experiment_id e)
        \<longleftrightarrow> rule_A_fires (cathode_limit th) e"
    if unique: "distinct (map Experiment.experiment_id es)"
  proof -
    have "(\<exists>a \<in> set ?out. anomaly_type a = ''HIGH_CATHODE_LOSS''
                 \<and> Anomaly.experiment_id a = Experiment.experiment_id e)
        \<longleftrightarrow> (\<exists>a \<in> set (filter (is_type ''HIGH_CATHODE_LOSS'') ?out).
                 Anomaly.experiment_id a = Experiment.experiment_id e)"
      by (rule ex_of_type)
    also have "\<dots> \<longleftrightarrow> (\<exists>a \<in> set ?hcl. Anomaly.experiment_id a = Experiment.experiment_id e)"
      unfolding hcl ..
    also have "\<dots> \<longleftrightarrow> (\<exists>x \<in> set es. rule_A_fires (cathode_limit th) x
                 \<and> Experiment.experiment_id x = Experiment.experiment_id e)"
      by (auto simp: rule_A_member)
    also have "\<dots> \<longleftrightarrow> rule_A_fires (cathode_limit th) e"
      using assms unique by (auto simp: distinct_map inj_on_def)
    finally show ?thesis .
  qed
  have fires: "rule_A_fires (cathode_limit th) e
        \<longleftrightarrow> (read_float (delta_mass_positive_g e) \<noteq> F64 0
                \<and> float_ge64
                     (f64_div (f64_abs (read_float (delta_mass_negative_g e)))
                              (f64_abs (read_float (delta_mass_positive_g e))))
                     (cathode_limit th))"
    by (simp add: rule_A_fires_def cathode_ratio_def anode_delta_def cathode_delta_def
          read_float_def)
  show ?thesis
    using limit out hcl iff unfolding fires by blast
qed

theorem rule_A_per_record_witness:
  "scenario_2 \<in> set [scenario_2]
   \<and> distinct (map Experiment.experiment_id [scenario_2])
   \<and> detect_anomalies [scenario_2] None =
       Inr [\<lparr> experiment_id = ''E2'', anomaly_type = ''HIGH_CATHODE_LOSS'',
              message = Cathode_ratio_message (F64 (3 / 2)) (1 / 2) \<rparr>]
   \<and> read_float (delta_mass_positive_g scenario_2) \<noteq> F64 0
   \<and> float_ge64
        (f64_div (f64_abs (read_float (delta_mass_negative_g scenario_2)))
                 (f64_abs (read_float (delta_mass_positive_g scenario_2))))
        (cathode_limit None)"
proof -
  have member: "scenario_2 \<in> set [scenario_2]"
    by simp
  have unique: "distinct (map Experiment.experiment_id [scenario_2])"
    by simp
  have found: "\<exists>a \<in> set [\<lparr> experiment_id = ''E2'', anomaly_type = ''HIGH_CATHODE_LOSS'',
                              message = Cathode_ratio_message (F64 (3 / 2)) (1 / 2) \<rparr>].
                 anomaly_type a = ''HIGH_CATHODE_LOSS''
                 \<and> Anomaly.experiment_id a = Experiment.experiment_id scenario_2"
    by (simp add: scenario_2_def)
  from rule_A_per_record [OF member, of None] unique found detect_scenario_2
  have "read_float (delta_mass_positive_g scenario_2) \<noteq> F64 0
        \<and> float_ge64
             (f64_div (f64_abs (read_float (delta_mass_negative_g scenario_2)))
                      (f64_abs (read_float (delta_mass_positive_g scenario_2))))
             (cathode_limit None)"
    by (simp del: distinct.simps)
  with member unique detect_scenario_2 show ?thesis
    by simp
qed

section \<open>Order of the findings\<close>

text \<open>
  Claim C5. The returned list is the per-record findings in the order of the input, each
  record contributing its Rule A finding (if any) directly followed by its Rule B finding
  (if any), and after all of them the group findings of Rule C. No per-record finding has
  the type of Rule C, and every group finding has it.
\<close>

theorem finding_order:
  "detect_anomalies es th =
     Inr (concat (map (\<lambda>e. rule_A (cathode_limit th) e @ rule_B (anode_limit th) e) es)
          @ rule_C_findings (std_limit th) es)
   \<and> filter (is_type ''UNSTABLE_RESULTS'')
        (concat (map (\<lambda>e. rule_A (cathode_limit th) e @ rule_B (anode_limit th) e) es)) = []
   \<and> filter (is_type ''UNSTABLE_RESULTS'') (rule_C_findings (std_limit th) es)
        = rule_C_findings (std_limit th) es"
proof -
  let ?records = "concat (map (\<lambda>e. rule_A (cathode_limit th) e @ rule_B (anode_limit th) e) es)"
  have records: "experiments_loop (cathode_limit th) (anode_limit th) [] es = Inr ?records"
    by (simp add: experiments_loop_eq)
  have groups: "groups_loop (std_limit th) ?records (groupby_electrolyte_mode (map to_record es))
                  = ?records @ rule_C_findings (std_limit th) es"
    unfolding groupby_to_record rule_C_findings_def by (rule groups_loop_eq)
  have "detect_anomalies es th = Inr (?records @ rule_C_findings (std_limit th) es)"
  proof (cases "es = []")
    case True
    then show ?thesis
      by (simp add: detect_anomalies_def getitem_merged rule_C_findings_def group_keys_def)
  next
    case False
    then show ?thesis
      by (simp add: detect_anomalies_def getitem_merged records experiments_to_dataframe_def
            groups)
  qed
  moreover have "filter (is_type ''UNSTABLE_RESULTS'') ?records = []"
    by (rule filter_per_record(3))
  moreover have "filter (is_type ''UNSTABLE_RESULTS'') (rule_C_findings (std_limit th) es)
                   = rule_C_findings (std_limit th) es"
    by (rule filter_rule_C_findings(3))
  ultimately show ?thesis by simp
qed

section \<open>Independence of the anode threshold\<close>

lemma limits_agree:
  assumes "\<forall>k. k \<noteq> ''anode_loss_threshold_g'' \<longrightarrow> or_empty th1 k = or_empty th2 k"
  shows "cathode_limit th1 = cathode_limit th2" and "std_limit th1 = std_limit th2"
proof -
  have "merged_thresholds th1 ''cathode_loss_ratio_threshold''
          = merged_thresholds th2 ''cathode_loss_ratio_threshold''"
    using assms by (simp add: merged_thresholds_def map_add_def)
  then show "cathode_limit th1 = cathode_limit th2"
    by (simp add: merged_lookup cathode_limit_def)
  have "merged_thresholds th1 ''std_dev_instability_threshold_g''
          = merged_thresholds th2 ''std_dev_instability_threshold_g''"
    using assms by (simp add: merged_thresholds_def map_add_def)
  then show "std_limit th1 = std_limit th2"
    by (simp add: merged_lookup std_limit_def)
qed

lemma filter_not_rule_B:
  "filter (\<lambda>a. anomaly_type a \<noteq> ''HIGH_ANODE_LOSS'')
          (concat (map (\<lambda>e. rule_A c e @ rule_B a e) es)) = concat (map (rule_A c) es)"
  by (induction es) (simp_all add: rule_A_def rule_B_def)

lemma detect_scenario_2_low_anode:
  "detect_anomalies [scenario_2] (Some low_anode_threshold) =
     Inr [\<lparr> experiment_id = ''E2'', anomaly_type = ''HIGH_CATHODE_LOSS'',
            message = Cathode_ratio_message (F64 (3 / 2)) (1 / 2) \<rparr>,
          \<lparr> experiment_id = ''E2'', anomaly_type = ''HIGH_ANODE_LOSS'',
            message = Anode_loss_message (read_float (2 / 100)) (binary64 (1 / 100)) \<rparr>]"
proof -
  have limits: "cathode_limit (Some low_anode_threshold) = 1 / 2"
    "anode_limit (Some low_anode_threshold) = 5764607523034235 / 576460752303423488"
    "std_limit (Some low_anode_threshold) = 3602879701896397 / 72057594037927936"
    by (simp_all add: cathode_limit_def anode_limit_def std_limit_def threshold_value_def
          low_anode_threshold_def limit_0_5 limit_0_01 limit_0_05)
  show ?thesis
    by (simp add: detect_anomalies_eq limits rule_A_def rule_A_fires_def rule_B_def
          deltas_scenario_2 rule_C_findings_single [OF deltas_scenario_2(1)]
          read_float_def read_0_02 limit_0_01)
      (simp add: scenario_2_def)
qed

text \<open>
  Claim C6. Two threshold configurations that agree on every key except
  \<^verbatim>\<open>anode_loss_threshold_g\<close> give, on the same records, the same Rule A findings and
  the same Rule C findings, as lists and hence as sets; all that can differ is the
  findings of Rule B.
\<close>

theorem anode_threshold_independence:
  assumes "\<forall>k. k \<noteq> ''anode_loss_threshold_g'' \<longrightarrow> or_empty th1 k = or_empty th2 k"
  shows "\<exists>out1 out2.
     detect_anomalies es th1 = Inr out1 \<and> detect_anomalies es th2 = Inr out2
     \<and> filter (is_type ''HIGH_CATHODE_LOSS'') out1 = filter (is_type ''HIGH_CATHODE_LOSS'') out2
     \<and> filter (is_type ''UNSTABLE_RESULTS'') out1 = filter (is_type ''UNSTABLE_RESULTS'') out2
     \<and> filter (\<lambda>a. anomaly_type a \<noteq> ''HIGH_ANODE_LOSS'') out1
         = filter (\<lambda>a. anomaly_type a \<noteq> ''HIGH_ANODE_LOSS'') out2"
  using limits_agree [OF assms]
  by (simp add: detect_anomalies_eq filter_not_rule_B)

theorem anode_threshold_independence_witness:
  "detect_anomalies [scenario_2] None =
       Inr [\<lparr> experiment_id = ''E2'', anomaly_type = ''HIGH_CATHODE_LOSS'',
              message = Cathode_ratio_message (F64 (3 / 2)) (1 / 2) \<rparr>]
   \<and> detect_anomalies [scenario_2] (Some low_anode_threshold) =
       Inr [\<lparr> experiment_id = ''E2'', anomaly_type = ''HIGH_CATHODE_LOSS'',
              message = Cathode_ratio_message (F64 (3 / 2)) (1 / 2) \<rparr>,
            \<lparr> experiment_id = ''E2'', anomaly_type = ''HIGH_ANODE_LOSS'',
              message = Anode_loss_message (read_float (2 / 100)) (binary64 (1 / 100)) \<rparr>]"
proof -
  have h: "\<forall>k. k \<noteq> ''anode_loss_threshold_g'' \<longrightarrow>
             or_empty None k = or_empty (Some low_anode_threshold) k"
    by (simp add: low_anode_threshold_def or_empty_def)
  from anode_threshold_independence [OF h, of "[scenario_2]"]
  show ?thesis
    using detect_scenario_2 detect_scenario_2_low_anode by simp
qed

section \<open>Rule C and groups of one record\<close>

lemma population_std_single: "population_std [x] = 0"
  by (simp add: population_std_def arithmetic_mean_def)

lemma sqrt_one_400: "sqrt (1 / 400) = 1 / 20"
  by (rule real_sqrt_unique) (simp_all add: power2_eq_square)

lemma population_std_scenario_3: "population_std [1 / 10, 1 / 5] = 1 / 20"
proof -
  have "sum_list (map (\<lambda>x. (x - arithmetic_mean [1 / 10, 1 / 5])\<^sup>2) [1 / 10, 1 / 5 :: real])
          / real (length [1 / 10, 1 / 5 :: real]) = 1 / 400"
    by (simp add: arithmetic_mean_def power2_eq_square)
  then show ?thesis
    unfolding population_std_def by (simp only: sqrt_one_400)
qed

text \<open>
  The deviation of a group of one record, as pandas computes it, is zero when the anode
  delta is finite and NaN when it is an infinity; it reaches no positive threshold.
\<close>

lemma single_member_below:
  assumes "0 < l"
  shows "\<not> float_ge64 (population_std64 [anode_delta e]) l"
proof
  assume ge: "float_ge64 (population_std64 [anode_delta e]) l"
  have "pd_std64 0 [anode_delta e] = population_std64 [anode_delta e]"
    using anode_delta_not_NaN [of "[e]"] by (intro pd_std64_population) simp_all
  with ge have "float_ge64 (pd_std64 0 [round64 (delta_mass_positive_g e)]) l"
    by (simp add: anode_delta_def)
  then have "l \<le> 0"
    by (rule pd_std64_single_ge)
  with assms show False by simp
qed

text \<open>
  Claim C3, as stated, fails: with the instability threshold overridden to zero, the
  single record of scenario 1 is alone in its group, the deviation of the group is zero,
  and zero reaches the threshold, so Rule C fires for \<^verbatim>\<open>GROUP-KOH-CV\<close>.
\<close>

theorem single_member_counterexample:
  "group_members [scenario_1] ''KOH'' ''CV'' = [scenario_1]
   \<and> detect_anomalies [scenario_1] (Some zero_std_threshold) =
       Inr [\<lparr> experiment_id = ''E1'', anomaly_type = ''HIGH_ANODE_LOSS'',
              message = Anode_loss_message (read_float (12 / 100)) (binary64 (1 / 10)) \<rparr>,
            \<lparr> experiment_id = ''GROUP-KOH-CV'', anomaly_type = ''UNSTABLE_RESULTS'',
              message = Group_std_message ''KOH'' ''CV'' (F64 0) 0 \<rparr>]"
proof -
  have limits: "cathode_limit (Some zero_std_threshold) = 1 / 2"
    "anode_limit (Some zero_std_threshold) = 3602879701896397 / 36028797018963968"
    "std_limit (Some zero_std_threshold) = 0"
    by (simp_all add: cathode_limit_def anode_limit_def std_limit_def threshold_value_def
          zero_std_threshold_def limit_0_5 limit_0_1)
  have members: "group_members [scenario_1] ''KOH'' ''CV'' = [scenario_1]"
    by (simp add: group_members_def scenario_1_def)
  have "detect_anomalies [scenario_1] (Some zero_std_threshold) =
       Inr [\<lparr> experiment_id = ''E1'', anomaly_type = ''HIGH_ANODE_LOSS'',
              message = Anode_loss_message (read_float (12 / 100)) (binary64 (1 / 10)) \<rparr>,
            \<lparr> experiment_id = ''GROUP-KOH-CV'', anomaly_type = ''UNSTABLE_RESULTS'',
              message = Group_std_message ''KOH'' ''CV'' (F64 0) 0 \<rparr>]"
    by (simp add: detect_anomalies_eq limits rule_A_def rule_A_fires_def rule_B_def
          deltas_scenario_1 rule_C_findings_single [OF deltas_scenario_1(1)]
          read_float_def read_0_12 limit_0_1)
      (simp add: scenario_1_def group_id_def)
  with members show ?thesis by simp
qed

lemma rule_C_findings_member:
  assumes "a \<in> set (rule_C_findings l es)"
  shows "\<exists>el md. (el, md) \<in> set (group_keys es)
           \<and> a \<in> set (rule_C l el md (map anode_delta (group_members es el md)))"
  using assms by (auto simp: rule_C_findings_def)

lemma rule_C_member:
  assumes "a \<in> set (rule_C l el md ds)"
  shows "ds \<noteq> [] \<and> float_ge64 (population_std64 ds) l
         \<and> a = \<lparr> experiment_id = group_id el md, anomaly_type = ''UNSTABLE_RESULTS'',
                 message = Group_std_message el md (population_std64 ds) l \<rparr>"
  using assms by (auto simp: rule_C_def split: if_splits)

lemma unstable_in_rule_C:
  assumes "a \<in> set (concat (map (\<lambda>e. rule_A c e @ rule_B b e) es) @ rule_C_findings l es)"
    and "anomaly_type a = ''UNSTABLE_RESULTS''"
  shows "a \<in> set (rule_C_findings l es)"
  using assms by (auto simp: rule_A_def rule_B_def split: if_splits)

text \<open>
  Claim C3, amended. When the merged \<^verbatim>\<open>std_dev_instability_threshold_g\<close> is positive,
  every \<^verbatim>\<open>UNSTABLE_RESULTS\<close> finding of the engine names a group of the input that has
  at least two records: Rule C never fires for a group with exactly one member.
\<close>

theorem rule_C_needs_two_members:
  assumes "0 < std_limit th"
    and "detect_anomalies es th = Inr out"
    and "a \<in> set out"
    and "anomaly_type a = ''UNSTABLE_RESULTS''"
  shows "\<exists>el md s.
           message a = Group_std_message el md s (std_limit th)
           \<and> Anomaly.experiment_id a = group_id el md
           \<and> 2 \<le> length (group_members es el md)"
proof -
  from assms(2,3,4) have "a \<in> set (rule_C_findings (std_limit th) es)"
    by (auto simp: detect_anomalies_eq intro: unstable_in_rule_C)
  then obtain el md where
    a: "a \<in> set (rule_C (std_limit th) el md (map anode_delta (group_members es el md)))"
    using rule_C_findings_member by blast
  let ?ds = "map anode_delta (group_members es el md)"
  from rule_C_member [OF a]
  have ne: "?ds \<noteq> []" and ge: "float_ge64 (population_std64 ?ds) (std_limit th)"
    and eq: "a = \<lparr> experiment_id = group_id el md, anomaly_type = ''UNSTABLE_RESULTS'',
                 message = Group_std_message el md (population_std64 ?ds) (std_limit th) \<rparr>"
    by simp_all
  have "length (group_members es el md) \<noteq> 1"
  proof
    assume "length (group_members es el md) = 1"
    then obtain x where "group_members es el md = [x]"
      by (cases "group_members es el md") auto
    with ge have "float_ge64 (population_std64 [anode_delta x]) (std_limit th)"
      by simp
    with single_member_below [OF assms(1)] show False by blast
  qed
  with ne have "2 \<le> length (group_members es el md)"
    by (cases "group_members es el md") (auto simp: Suc_le_eq)
  with eq show ?thesis by auto
qed

lemma rule_C_findings_scenario_3:
  "rule_C_findings (3602879701896397 / 72057594037927936) [scenario_3a, scenario_3b] =
     [\<lparr> experiment_id = ''GROUP-KOH-CV'', anomaly_type = ''UNSTABLE_RESULTS'',
        message = Group_std_message ''KOH'' ''CV''
                    (F64 (3602879701896397 / 72057594037927936))
                    (3602879701896397 / 72057594037927936) \<rparr>]"
proof -
  have keys: "group_keys [scenario_3a, scenario_3b] = [(''KOH'', ''CV'')]"
    by (simp add: group_keys_def scenario_3a_def scenario_3b_def)
  have members: "group_members [scenario_3a, scenario_3b] ''KOH'' ''CV''
                   = [scenario_3a, scenario_3b]"
    by (simp add: group_members_def scenario_3a_def scenario_3b_def)
  have "population_std64 [F64 (3602879701896397 / 36028797018963968),
                          F64 (3602879701896397 / 18014398509481984)]
          = F64 (3602879701896397 / 72057594037927936)"
    using pd_std64_population
            [of "[F64 (3602879701896397 / 36028797018963968),
                  F64 (3602879701896397 / 18014398509481984)]"]
    by (simp add: pd_std64_scenario_3)
  then show ?thesis
    unfolding rule_C_findings_def keys
    by (simp add: members rule_C_def deltas_scenario_3 group_id_def)
qed

lemma detect_scenario_3:
  "detect_anomalies [scenario_3a, scenario_3b] None =
     Inr [\<lparr> experiment_id = ''E3'', anomaly_type = ''HIGH_ANODE_LOSS'',
            message = Anode_loss_message (read_float (10 / 100)) (binary64 (1 / 10)) \<rparr>,
          \<lparr> experiment_id = ''E4'', anomaly_type = ''HIGH_ANODE_LOSS'',
            message = Anode_loss_message (read_float (20 / 100)) (binary64 (1 / 10)) \<rparr>,
          \<lparr> experiment_id = ''GROUP-KOH-CV'', anomaly_type = ''UNSTABLE_RESULTS'',
            message = Group_std_message ''KOH'' ''CV'' (F64 (binary64 (5 / 100)))
                        (binary64 (5 / 100)) \<rparr>]"
  by (simp add: detect_anomalies_eq default_limits rule_A_def rule_A_fires_def rule_B_def
        deltas_scenario_3 rule_C_findings_scenario_3 read_float_def read_0_10 read_0_20
        limit_0_1 limit_0_05)
    (simp add: scenario_3a_def scenario_3b_def)

theorem rule_C_needs_two_members_witness:
  "0 < std_limit None
   \<and> detect_anomalies [scenario_3a, scenario_3b] None =
       Inr [\<lparr> experiment_id = ''E3'', anomaly_type = ''HIGH_ANODE_LOSS'',
              message = Anode_loss_message (read_float (10 / 100)) (binary64 (1 / 10)) \<rparr>,
            \<lparr> experiment_id = ''E4'', anomaly_type = ''HIGH_ANODE_LOSS'',
              message = Anode_loss_message (read_float (20 / 100)) (binary64 (1 / 10)) \<rparr>,
            \<lparr> experiment_id = ''GROUP-KOH-CV'', anomaly_type = ''UNSTABLE_RESULTS'',
              message = Group_std_message ''KOH'' ''CV'' (F64 (binary64 (5 / 100)))
                          (binary64 (5 / 100)) \<rparr>]
   \<and> 2 \<le> length (group_members [scenario_3a, scenario_3b] ''KOH'' ''CV'')"
proof -
  have len: "2 \<le> length (group_members [scenario_3a, scenario_3b] ''KOH'' ''CV'')"
    by (simp add: group_members_def scenario_3a_def scenario_3b_def)
  have pos: "0 < std_limit None"
    by (simp add: default_limits)
  from rule_C_needs_two_members
    [of None "[scenario_3a, scenario_3b]" _
        "\<lparr> experiment_id = ''GROUP-KOH-CV'', anomaly_type = ''UNSTABLE_RESULTS'',
           message = Group_std_message ''KOH'' ''CV'' (F64 (binary64 (5 / 100)))
                       (binary64 (5 / 100)) \<rparr>",
     OF pos detect_scenario_3]
  show ?thesis
    using pos len detect_scenario_3 by simp
qed

section \<open>The exact boundary of Rule C\<close>

lemma pd_std_scenario_3: "pd_std 0 [Fin (1 / 10), Fin (1 / 5)] = Fin (1 / 20)"
  using pd_std_Fin [of "[1 / 10, 1 / 5]"] by (simp add: population_std_scenario_3)

text \<open>
  Claim C7. Two records, both of group \<open>(KOH, CV)\<close>, with anode deltas 0.10 and 0.20,
  under a configuration whose merged \<^verbatim>\<open>std_dev_instability_threshold_g\<close> is 0.05: the
  frame has the one group, the population standard deviation of its anode deltas is
  0.05, both over the reals and as pandas computes it on the floats 0.10 and 0.20, where
  the result is the float 0.05 itself, and the engine emits an \<^verbatim>\<open>UNSTABLE_RESULTS\<close>
  finding under \<^verbatim>\<open>GROUP-KOH-CV\<close>.
\<close>

theorem exact_boundary:
  assumes "electrolyte e1 = ''KOH''" and "mode e1 = ''CV''"
    and "electrolyte e2 = ''KOH''" and "mode e2 = ''CV''"
    and "delta_mass_positive_g e1 = 10 / 100" and "delta_mass_positive_g e2 = 20 / 100"
    and "merged_thresholds th ''std_dev_instability_threshold_g'' = Some (5 / 100)"
  shows "groupby_electrolyte_mode (experiments_to_dataframe [e1, e2])
           = [((''KOH'', ''CV''), map to_record [e1, e2])]
     \<and> pd_std 0 (positive_column (map to_record [e1, e2])) = Fin (5 / 100)
     \<and> pd_std64 0 (positive_column64 (map to_record [e1, e2])) = F64 (binary64 (5 / 100))
     \<and> (\<exists>out. detect_anomalies [e1, e2] th = Inr out
           \<and> (\<exists>a \<in> set out. anomaly_type a = ''UNSTABLE_RESULTS''
                 \<and> Anomaly.experiment_id a = ''GROUP-KOH-CV''))"
proof -
  have "threshold_value th ''std_dev_instability_threshold_g'' (1 / 20) = 5 / 100"
    using assms(7) unfolding merged_lookup by (simp only: option.inject)
  then have "std_limit th = binary64 (5 / 100)"
    unfolding std_limit_def by (simp only:)
  then have limit: "std_limit th = 3602879701896397 / 72057594037927936"
    by (simp add: limit_0_05)
  have keys: "group_keys [e1, e2] = [(''KOH'', ''CV'')]"
    using assms(1-4) by (simp add: group_keys_def)
  have members: "group_members [e1, e2] ''KOH'' ''CV'' = [e1, e2]"
    using assms(1-4) by (simp add: group_members_def)
  have groups: "groupby_electrolyte_mode (experiments_to_dataframe [e1, e2])
                  = [((''KOH'', ''CV''), map to_record [e1, e2])]"
    using groupby_to_record [of "[e1, e2]"]
    by (simp add: experiments_to_dataframe_def keys members)
  have d1: "delta_mass_positive_g e1 = 1 / 10" and d2: "delta_mass_positive_g e2 = 1 / 5"
    using assms(5,6) by simp_all
  have a1: "anode_delta e1 = F64 (3602879701896397 / 36028797018963968)"
    and a2: "anode_delta e2 = F64 (3602879701896397 / 18014398509481984)"
    by (simp_all add: anode_delta_def d1 d2 read_0_10 read_0_20)
  have std: "pd_std 0 (positive_column (map to_record [e1, e2])) = Fin (5 / 100)"
    by (simp add: positive_column_def to_record_def d1 d2 pd_std_scenario_3)
  have std64: "pd_std64 0 (positive_column64 (map to_record [e1, e2]))
                 = F64 (binary64 (5 / 100))"
    unfolding positive_column64_to_record
    by (simp add: a1 a2 pd_std64_scenario_3 limit_0_05)
  have "population_std64 (map anode_delta [e1, e2])
          = F64 (3602879701896397 / 72057594037927936)"
    using pd_std64_population [of "map anode_delta [e1, e2]"]
    by (simp add: a1 a2 pd_std64_scenario_3)
  then have "rule_C_findings (3602879701896397 / 72057594037927936) [e1, e2] =
          [\<lparr> experiment_id = ''GROUP-KOH-CV'', anomaly_type = ''UNSTABLE_RESULTS'',
             message = Group_std_message ''KOH'' ''CV''
                         (F64 (3602879701896397 / 72057594037927936))
                         (3602879701896397 / 72057594037927936) \<rparr>]"
    by (simp add: rule_C_findings_def keys members rule_C_def group_id_def)
  then have "\<exists>a \<in> set (concat (map (\<lambda>e. rule_A (cathode_limit th) e @ rule_B (anode_limit th) e)
                                 [e1, e2]) @ rule_C_findings (std_limit th) [e1, e2]).
               anomaly_type a = ''UNSTABLE_RESULTS''
               \<and> Anomaly.experiment_id a = ''GROUP-KOH-CV''"
    by (simp add: limit)
  then show ?thesis
    using groups std std64 by (simp only: detect_anomalies_eq) blast
qed

theorem exact_boundary_witness:
  "electrolyte scenario_3a = ''KOH'' \<and> mode scenario_3a = ''CV''
   \<and> electrolyte scenario_3b = ''KOH'' \<and> mode scenario_3b = ''CV''
   \<and> delta_mass_positive_g scenario_3a = 10 / 100
   \<and> delta_mass_positive_g scenario_3b = 20 / 100
   \<and> merged_thresholds None ''std_dev_instability_threshold_g'' = Some (5 / 100)
   \<and> pd_std 0 (positive_column (map to_record [scenario_3a, scenario_3b])) = Fin (5 / 100)
   \<and> pd_std64 0 (positive_column64 (map to_record [scenario_3a, scenario_3b]))
        = F64 (binary64 (5 / 100))"
proof -
  have h: "electrolyte scenario_3a = ''KOH''" "mode scenario_3a = ''CV''"
    "electrolyte scenario_3b = ''KOH''" "mode scenario_3b = ''CV''"
    "delta_mass_positive_g scenario_3a = 10 / 100"
    "delta_mass_positive_g scenario_3b = 20 / 100"
    by (simp_all add: scenario_3a_def scenario_3b_def)
  have t: "merged_thresholds None ''std_dev_instability_threshold_g'' = Some (5 / 100)"
    by (simp add: merged_thresholds_def or_empty_def DEFAULT_ANALYSIS_CONFIG_def)
  from exact_boundary [OF h t] show ?thesis
    using h t by blast
qed

section \<open>Empty input\<close>

text \<open>
  Claim C4. For the empty record sequence the table is empty, the overall statistics are
  the empty dictionary, the grouped statistics are the empty mapping, and the finding
  list is empty and returned without an error, whatever the threshold configuration.
\<close>

theorem empty_input:
  "experiments_to_dataframe [] = []
   \<and> basic_statistics (experiments_to_dataframe []) = Map.empty
   \<and> grouped_statistics (experiments_to_dataframe []) = []
   \<and> detect_anomalies [] thresholds = Inr []"
  by (simp add: experiments_to_dataframe_def basic_statistics_def grouped_statistics_def
        detect_anomalies_def getitem_def merged_lookup)

section \<open>The combined summary\<close>

lemma merged_None: "merged_thresholds None = DEFAULT_ANALYSIS_CONFIG"
  by (simp add: merged_thresholds_def or_empty_def)

lemma detect_anomalies_merged:
  "merged_thresholds th1 = merged_thresholds th2
     \<Longrightarrow> detect_anomalies es th1 = detect_anomalies es th2"
  by (simp add: detect_anomalies_def)

text \<open>
  Claim C9. The summary takes the records and nothing else; its \<^verbatim>\<open>anomalies\<close> field is
  the list of findings of \<^verbatim>\<open>detect_anomalies\<close> called without overrides, each flattened
  by \<^verbatim>\<open>asdict\<close>, and that call evaluates the rules under the default configuration.
\<close>

theorem summary_uses_defaults:
  "\<exists>summary found.
      summarize_analysis str_of_key es = Inr summary
      \<and> detect_anomalies es None = Inr found
      \<and> anomalies summary = map asdict found
      \<and> merged_thresholds None = DEFAULT_ANALYSIS_CONFIG
      \<and> detect_anomalies es (Some DEFAULT_ANALYSIS_CONFIG) = Inr found"
proof -
  have "merged_thresholds (Some DEFAULT_ANALYSIS_CONFIG) = merged_thresholds None"
    by (rule ext) (simp add: merged_thresholds_def or_empty_def map_add_def split: option.splits)
  then have "detect_anomalies es (Some DEFAULT_ANALYSIS_CONFIG) = detect_anomalies es None"
    by (rule detect_anomalies_merged)
  then show ?thesis
    by (simp add: summarize_analysis_def detect_anomalies_eq merged_None Let_def)
qed

section \<open>Overall statistics\<close>

lemma pd_max_Fin: "xs \<noteq> [] \<Longrightarrow> pd_max (map Fin xs) = Fin (Max (set xs))"
  by (cases xs) (simp_all add: pd_max_def valid_values_Fin fold_max_Max)

lemma pd_min_Fin: "xs \<noteq> [] \<Longrightarrow> pd_min (map Fin xs) = Fin (Min (set xs))"
  by (cases xs) (simp_all add: pd_min_def valid_values_Fin fold_min_Min)

lemma series_stats_Fin:
  assumes "xs \<noteq> []"
  shows "series_stats (map Fin xs) =
           Columns [''mean'' \<mapsto> Fin (arithmetic_mean xs),
                    ''std'' \<mapsto> Fin (population_std xs),
                    ''max'' \<mapsto> Fin (Max (set xs)),
                    ''min'' \<mapsto> Fin (Min (set xs))]"
  unfolding series_stats_def
  by (simp only: pd_mean_Fin [OF assms] pd_std_Fin [OF assms] pd_max_Fin [OF assms]
        pd_min_Fin [OF assms])

lemma ratio_series_valid:
  "valid_values (map2 pd_div_replaced (map pd_abs (negative_column df))
                                      (map pd_abs (positive_column df)))
     = ratio_contributions df"
  by (induction df)
     (simp_all add: negative_column_def positive_column_def ratio_contributions_def
        pd_div_replaced_def)

lemma ratio_mean:
  "pd_mean (map2 pd_div_replaced (map pd_abs (negative_column df))
                                 (map pd_abs (positive_column df)))
     = (if ratio_contributions df = [] then NaN
        else Fin (arithmetic_mean (ratio_contributions df)))"
  by (simp add: pd_mean_def ratio_series_valid arithmetic_mean_def Let_def)

lemma basic_statistics_entries:
  assumes "df \<noteq> []"
  shows "basic_statistics df ''anode'' = Some (series_stats (positive_column df))"
    and "basic_statistics df ''cathode'' = Some (series_stats (negative_column df))"
    and "basic_statistics df ''ratio_mean_abs'' =
           Some (Scalar (pd_mean (map2 pd_div_replaced (map pd_abs (negative_column df))
                                                       (map pd_abs (positive_column df)))))"
  using assms by (simp_all add: basic_statistics_def)

text \<open>
  Claim C2. On a non-empty table the statistics of each delta column are the arithmetic
  mean, the population standard deviation (denominator: the count), the maximum and the
  minimum of the column, and \<^verbatim>\<open>ratio_mean_abs\<close> is the mean of the ratios of absolute
  cathode delta to absolute anode delta over the rows whose anode delta is not zero;
  rows with a zero anode delta are left out of that mean and nothing fails.
\<close>

theorem basic_statistics_nonempty:
  assumes "df \<noteq> []"
  shows "basic_statistics df ''anode'' =
           Some (Columns
             [''mean'' \<mapsto> Fin (arithmetic_mean (map delta_mass_positive_g_col df)),
              ''std'' \<mapsto> Fin (population_std (map delta_mass_positive_g_col df)),
              ''max'' \<mapsto> Fin (Max (set (map delta_mass_positive_g_col df))),
              ''min'' \<mapsto> Fin (Min (set (map delta_mass_positive_g_col df)))])
     \<and> basic_statistics df ''cathode'' =
           Some (Columns
             [''mean'' \<mapsto> Fin (arithmetic_mean (map delta_mass_negative_g_col df)),
              ''std'' \<mapsto> Fin (population_std (map delta_mass_negative_g_col df)),
              ''max'' \<mapsto> Fin (Max (set (map delta_mass_negative_g_col df))),
              ''min'' \<mapsto> Fin (Min (set (map delta_mass_negative_g_col df)))])
     \<and> basic_statistics df ''ratio_mean_abs'' =
           Some (Scalar (if ratio_contributions df = [] then NaN
                         else Fin (arithmetic_mean (ratio_contributions df))))"
proof -
  have pos: "positive_column df = map Fin (map delta_mass_positive_g_col df)"
    by (simp add: positive_column_def)
  have neg: "negative_column df = map Fin (map delta_mass_negative_g_col df)"
    by (simp add: negative_column_def)
  have ne: "map delta_mass_positive_g_col df \<noteq> []" "map delta_mass_negative_g_col df \<noteq> []"
    using assms by simp_all
  have anode: "series_stats (positive_column df) =
           Columns
             [''mean'' \<mapsto> Fin (arithmetic_mean (map delta_mass_positive_g_col df)),
              ''std'' \<mapsto> Fin (population_std (map delta_mass_positive_g_col df)),
              ''max'' \<mapsto> Fin (Max (set (map delta_mass_positive_g_col df))),
              ''min'' \<mapsto> Fin (Min (set (map delta_mass_positive_g_col df)))]"
    unfolding pos by (rule series_stats_Fin [OF ne(1)])
  have cathode: "series_stats (negative_column df) =
           Columns
             [''mean'' \<mapsto> Fin (arithmetic_mean (map delta_mass_negative_g_col df)),
              ''std'' \<mapsto> Fin (population_std (map delta_mass_negative_g_col df)),
              ''max'' \<mapsto> Fin (Max (set (map delta_mass_negative_g_col df))),
              ''min'' \<mapsto> Fin (Min (set (map delta_mass_negative_g_col df)))]"
    unfolding neg by (rule series_stats_Fin [OF ne(2)])
  show ?thesis
    unfolding basic_statistics_entries [OF assms] anode cathode ratio_mean by simp
qed

theorem basic_statistics_nonempty_witness:
  "experiments_to_dataframe [scenario_2, scenario_4] \<noteq> []
   \<and> ratio_contributions (experiments_to_dataframe [scenario_2, scenario_4]) = [3 / 2]
   \<and> basic_statistics (experiments_to_dataframe [scenario_2, scenario_4]) ''ratio_mean_abs''
        = Some (Scalar (Fin (3 / 2)))
   \<and> basic_statistics (experiments_to_dataframe [scenario_2, scenario_4]) ''anode''
        = Some (Columns [''mean'' \<mapsto> Fin (1 / 100), ''std'' \<mapsto> Fin (1 / 100),
                         ''max'' \<mapsto> Fin (2 / 100), ''min'' \<mapsto> Fin 0])"
proof -
  let ?df = "experiments_to_dataframe [scenario_2, scenario_4]"
  have ne: "?df \<noteq> []"
    by (simp add: experiments_to_dataframe_def)
  have rc: "ratio_contributions ?df = [3 / 2]"
    by (simp add: ratio_contributions_def experiments_to_dataframe_def to_record_def
          scenario_2_def scenario_4_def)
  have col: "map delta_mass_positive_g_col ?df = [1 / 50, 0]"
    by (simp add: experiments_to_dataframe_def to_record_def scenario_2_def scenario_4_def)
  have "sqrt (1 / 10000) = 1 / 100"
    by (rule real_sqrt_unique) (simp_all add: power2_eq_square)
  then have std: "population_std [1 / 50, 0] = 1 / 100"
    by (simp add: population_std_def arithmetic_mean_def power2_eq_square)
  from basic_statistics_nonempty [OF ne] show ?thesis
    using ne by (simp add: rc col std arithmetic_mean_def)
qed

section \<open>A table whose anode deltas are all zero\<close>

lemma no_contributions:
  "list_all (\<lambda>r. delta_mass_positive_g_col r = 0) df \<Longrightarrow> ratio_contributions df = []"
  by (induction df) (simp_all add: ratio_contributions_def)

text \<open>
  Claim C10. On a non-empty table in which every anode delta is zero, the statistics are
  still returned; \<^verbatim>\<open>ratio_mean_abs\<close> is \<open>NaN\<close>, the mean of no contribution at all,
  and the mean, deviation, maximum and minimum of both columns are real numbers.
\<close>

theorem all_zero_anode:
  assumes "df \<noteq> []" and "list_all (\<lambda>r. delta_mass_positive_g_col r = 0) df"
  shows "basic_statistics df ''ratio_mean_abs'' = Some (Scalar NaN)
     \<and> (\<exists>m s hi lo. basic_statistics df ''anode'' =
            Some (Columns [''mean'' \<mapsto> Fin m, ''std'' \<mapsto> Fin s,
                           ''max'' \<mapsto> Fin hi, ''min'' \<mapsto> Fin lo]))
     \<and> (\<exists>m s hi lo. basic_statistics df ''cathode'' =
            Some (Columns [''mean'' \<mapsto> Fin m, ''std'' \<mapsto> Fin s,
                           ''max'' \<mapsto> Fin hi, ''min'' \<mapsto> Fin lo]))"
proof -
  have ratio: "basic_statistics df ''ratio_mean_abs'' = Some (Scalar NaN)"
    unfolding basic_statistics_entries(3) [OF assms(1)] ratio_mean
    by (simp add: no_contributions [OF assms(2)])
  have pos: "positive_column df = map Fin (map delta_mass_positive_g_col df)"
    by (simp add: positive_column_def)
  have neg: "negative_column df = map Fin (map delta_mass_negative_g_col df)"
    by (simp add: negative_column_def)
  have ne: "map delta_mass_positive_g_col df \<noteq> []" "map delta_mass_negative_g_col df \<noteq> []"
    using assms(1) by simp_all
  have anode: "\<exists>m s hi lo. basic_statistics df ''anode'' =
            Some (Columns [''mean'' \<mapsto> Fin m, ''std'' \<mapsto> Fin s,
                           ''max'' \<mapsto> Fin hi, ''min'' \<mapsto> Fin lo])"
    unfolding basic_statistics_entries(1) [OF assms(1)] pos series_stats_Fin [OF ne(1)]
    by blast
  have cathode: "\<exists>m s hi lo. basic_statistics df ''cathode'' =
            Some (Columns [''mean'' \<mapsto> Fin m, ''std'' \<mapsto> Fin s,
                           ''max'' \<mapsto> Fin hi, ''min'' \<mapsto> Fin lo])"
    unfolding basic_statistics_entries(2) [OF assms(1)] neg series_stats_Fin [OF ne(2)]
    by blast
  from ratio anode cathode show ?thesis by blast
qed

theorem all_zero_anode_witness:
  "experiments_to_dataframe [scenario_4] \<noteq> []
   \<and> list_all (\<lambda>r. delta_mass_positive_g_col r = 0) (experiments_to_dataframe [scenario_4])
   \<and> basic_statistics (experiments_to_dataframe [scenario_4]) ''ratio_mean_abs''
        = Some (Scalar NaN)"
proof -
  let ?df = "experiments_to_dataframe [scenario_4]"
  have ne: "?df \<noteq> []"
    by (simp add: experiments_to_dataframe_def)
  have zero: "list_all (\<lambda>r. delta_mass_positive_g_col r = 0) ?df"
    by (simp add: experiments_to_dataframe_def to_record_def scenario_4_def)
  from all_zero_anode [OF ne zero] show ?thesis
    using ne zero by blast
qed

section \<open>The delta invariant in the recorder\<close>

text \<open>An object whose columns already hold what the bind processors return is stored as it is.\<close>

lemma bind_columns_fixed:
  assumes "list_all (\<lambda>c. process (getattr obj c) = Inr (getattr obj c)) columns"
  shows "bind_columns process columns obj = Inr obj"
  using assms
proof (induction columns)
  case Nil
  then show ?case by simp
next
  case (Cons c columns)
  have "setattr obj c (getattr obj c) = obj" if "getattr obj c \<noteq> PNone"
    using that by (auto simp: setattr_def getattr_def split: option.splits)
  with Cons show ?case by simp
qed

lemma bind_columns_append:
  "bind_columns process (xs @ ys) obj =
     (case bind_columns process xs obj of
        Inl err \<Rightarrow> Inl err
      | Inr obj1 \<Rightarrow> bind_columns process ys obj1)"
  by (induction xs arbitrary: obj) (simp_all split: sum.splits)

lemma bind_row_fixed:
  assumes "list_all (\<lambda>c. bind_float float_of_str (getattr obj c) = Inr (getattr obj c))
             FLOAT_COLUMNS"
    and "bind_datetime (getattr obj ''date_time'') = Inr (getattr obj ''date_time'')"
  shows "bind_row float_of_str obj = Inr obj"
proof -
  have floats: "bind_columns (bind_float float_of_str) FLOAT_COLUMNS obj = Inr obj"
    using assms(1) by (rule bind_columns_fixed)
  have date: "bind_columns bind_datetime [''date_time''] obj = Inr obj"
    using assms(2) by (intro bind_columns_fixed) simp
  show ?thesis
    unfolding bind_row_def floats by (simp only: sum.case date)
qed

lemma bind_stored_E1: "bind_row float_of_str stored_E1 = Inr stored_E1"
  by (rule bind_row_fixed) (simp_all add: FLOAT_COLUMNS_def getattr_def stored_E1_def)

lemma add_new_record:
  "add_experiment float_of_str fromisoformat [] new_record_data = Inr ([stored_E1], stored_E1)"
proof -
  have parsed: "parse_items float_of_str [] new_record_data = Inr new_record_data"
    by (simp add: new_record_data_def NUMERIC_FIELDS_def)
  have built: "construct_experiment
                 (AList.update ''delta_mass_negative_g'' (PFloat (- (2 / 100)))
                    (AList.update ''delta_mass_positive_g'' (PFloat (12 / 100))
                       new_record_data))
               = Inr stored_E1"
    by (simp add: construct_experiment_def new_record_data_def stored_E1_def COLUMNS_def)
  have stored: "commit float_of_str [stored_E1] = Inr [stored_E1]"
    by (simp add: commit_def bind_stored_E1)
      (simp add: REQUIRED_COLUMNS_def getattr_def stored_E1_def)
  have deltas:
    "calculate_delta (dict_get new_record_data ''initial_mass_positive_g'')
                     (dict_get new_record_data ''final_mass_positive_g'')
       = Inr (PFloat (12 / 100))"
    "calculate_delta
       (dict_get (AList.update ''delta_mass_positive_g'' (PFloat (12 / 100)) new_record_data)
                 ''initial_mass_negative_g'')
       (dict_get (AList.update ''delta_mass_positive_g'' (PFloat (12 / 100)) new_record_data)
                 ''final_mass_negative_g'')
       = Inr (PFloat (- (2 / 100)))"
    by (simp_all add: new_record_data_def dict_get_def calculate_delta_def)
  have required:
    "check_required new_record_data
       [''initial_mass_positive_g'', ''final_mass_positive_g'',
        ''initial_mass_negative_g'', ''final_mass_negative_g''] = Inr ()"
    by (simp add: new_record_data_def dict_get_def)
  have no_date:
    "dict_get (AList.update ''delta_mass_negative_g'' (PFloat (- (2 / 100)))
                 (AList.update ''delta_mass_positive_g'' (PFloat (12 / 100)) new_record_data))
              ''date_time'' = PNone"
    by (simp add: new_record_data_def dict_get_def)
  show ?thesis
    unfolding add_experiment_def parsed
    by (simp only: sum.case required deltas Let_def no_date pyval.case built append_Nil
          stored prod.case)
qed

lemma stored_E1_ok: "delta_positive_ok stored_E1 \<and> delta_negative_ok stored_E1"
  by (simp add: delta_positive_ok_def delta_negative_ok_def stored_E1_def getattr_def
        calculate_delta_def)

lemma edit_delta_override:
  "edit_experiment float_of_str [stored_E1] ''E1'' delta_override =
     Inr ([stored_E1(''delta_mass_positive_g'' \<mapsto> PFloat 5)],
          stored_E1(''delta_mass_positive_g'' \<mapsto> PFloat 5))"
proof -
  have is_E1: "has_experiment_id ''E1'' stored_E1"
    by (simp add: has_experiment_id_def getattr_def stored_E1_def)
  then have found: "filter (has_experiment_id ''E1'') [stored_E1] = [stored_E1]"
    by simp
  have allowed: "''experiment_id'' \<notin> fst ` set delta_override"
    by (simp add: delta_override_def)
  have changed: "apply_changes float_of_str stored_E1 delta_override
                   = Inr (stored_E1(''delta_mass_positive_g'' \<mapsto> PFloat 5))"
    by (simp add: delta_override_def NUMERIC_FIELDS_def hasattr_def COLUMNS_def setattr_def)
  have same: "recalculate delta_override ik fk dk obj = Inr obj"
    if "ik \<noteq> ''delta_mass_positive_g''" and "fk \<noteq> ''delta_mass_positive_g''"
    for ik fk dk obj
    using that by (simp add: recalculate_def delta_override_def)
  have bound: "bind_row float_of_str (stored_E1(''delta_mass_positive_g'' \<mapsto> PFloat 5))
                 = Inr (stored_E1(''delta_mass_positive_g'' \<mapsto> PFloat 5))"
    by (rule bind_row_fixed) (simp_all add: FLOAT_COLUMNS_def getattr_def stored_E1_def)
  have stored: "commit float_of_str [stored_E1(''delta_mass_positive_g'' \<mapsto> PFloat 5)]
                  = Inr [stored_E1(''delta_mass_positive_g'' \<mapsto> PFloat 5)]"
    by (simp add: commit_def bound)
      (simp add: REQUIRED_COLUMNS_def getattr_def stored_E1_def)
  show ?thesis
    by (simp add: edit_experiment_def allowed found is_E1 changed same stored)
qed

text \<open>
  Claim C8 at a failing input. \<^verbatim>\<open>add_experiment\<close> stores a record whose deltas are the
  differences of its masses; \<^verbatim>\<open>edit_experiment\<close> called on it with the one change
  \<^verbatim>\<open>delta_mass_positive_g=5.0\<close> succeeds, leaves both anode masses as they were, and
  stores 5.0 as the anode delta, which is not their difference 0.12.
\<close>

theorem edit_breaks_delta_invariant:
  "add_experiment (\<lambda>s. None) (\<lambda>s. None) [] new_record_data = Inr ([stored_E1], stored_E1)
   \<and> delta_positive_ok stored_E1 \<and> delta_negative_ok stored_E1
   \<and> edit_experiment (\<lambda>s. None) [stored_E1] ''E1'' delta_override =
       Inr ([stored_E1(''delta_mass_positive_g'' \<mapsto> PFloat 5)],
            stored_E1(''delta_mass_positive_g'' \<mapsto> PFloat 5))
   \<and> getattr (stored_E1(''delta_mass_positive_g'' \<mapsto> PFloat 5)) ''initial_mass_positive_g''
        = PFloat 1
   \<and> getattr (stored_E1(''delta_mass_positive_g'' \<mapsto> PFloat 5)) ''final_mass_positive_g''
        = PFloat (112 / 100)
   \<and> getattr (stored_E1(''delta_mass_positive_g'' \<mapsto> PFloat 5)) ''delta_mass_positive_g''
        = PFloat 5
   \<and> \<not> delta_positive_ok (stored_E1(''delta_mass_positive_g'' \<mapsto> PFloat 5))"
proof -
  have masses:
    "getattr (stored_E1(''delta_mass_positive_g'' \<mapsto> PFloat 5)) ''initial_mass_positive_g''
       = PFloat 1"
    "getattr (stored_E1(''delta_mass_positive_g'' \<mapsto> PFloat 5)) ''final_mass_positive_g''
       = PFloat (112 / 100)"
    "getattr (stored_E1(''delta_mass_positive_g'' \<mapsto> PFloat 5)) ''delta_mass_positive_g''
       = PFloat 5"
    by (simp_all add: getattr_def stored_E1_def)
  have broken: "\<not> delta_positive_ok (stored_E1(''delta_mass_positive_g'' \<mapsto> PFloat 5))"
    unfolding delta_positive_ok_def masses by (simp add: calculate_delta_def)
  show ?thesis
    using add_new_record stored_E1_ok edit_delta_override masses broken by simp
qed

text \<open>
  The same edit as the command line makes it, with the new value as text: the object
  keeps the text, the \<^verbatim>\<open>Float\<close> column stores the number it spells, and the stored row
  breaks the invariant in the same way. Text that spells no number stops the commit, and
  the table stays as it was.
\<close>

lemma edit_delta_override_text:
  assumes "float_of_str ''5'' = Some 5"
  shows "edit_experiment float_of_str [stored_E1] ''E1'' delta_override_text =
     Inr ([stored_E1(''delta_mass_positive_g'' \<mapsto> PFloat 5)],
          stored_E1(''delta_mass_positive_g'' \<mapsto> PStr ''5''))"
proof -
  define rest where
    "rest = [''initial_mass_negative_g'', ''final_mass_negative_g'', ''delta_mass_negative_g'']"
  have is_E1: "has_experiment_id ''E1'' stored_E1"
    by (simp add: has_experiment_id_def getattr_def stored_E1_def)
  then have found: "filter (has_experiment_id ''E1'') [stored_E1] = [stored_E1]"
    by simp
  have allowed: "''experiment_id'' \<notin> fst ` set delta_override_text"
    by (simp add: delta_override_text_def)
  have changed: "apply_changes float_of_str stored_E1 delta_override_text
                   = Inr (stored_E1(''delta_mass_positive_g'' \<mapsto> PStr ''5''))"
    by (simp add: delta_override_text_def NUMERIC_FIELDS_def hasattr_def COLUMNS_def
          setattr_def)
  have same: "recalculate delta_override_text ik fk dk obj = Inr obj"
    if "ik \<noteq> ''delta_mass_positive_g''" and "fk \<noteq> ''delta_mass_positive_g''"
    for ik fk dk obj
    using that by (simp add: recalculate_def delta_override_text_def)
  have before: "bind_columns (bind_float float_of_str)
                  [''voltage_V'', ''current_A'', ''duration_min'',
                   ''initial_mass_positive_g'', ''final_mass_positive_g'']
                  (stored_E1(''delta_mass_positive_g'' \<mapsto> PStr ''5''))
                = Inr (stored_E1(''delta_mass_positive_g'' \<mapsto> PStr ''5''))"
    by (rule bind_columns_fixed) (simp add: getattr_def stored_E1_def)
  have after: "bind_columns (bind_float float_of_str) rest
                  (stored_E1(''delta_mass_positive_g'' \<mapsto> PFloat 5))
                = Inr (stored_E1(''delta_mass_positive_g'' \<mapsto> PFloat 5))"
    by (rule bind_columns_fixed) (simp add: rest_def getattr_def stored_E1_def)
  have date: "bind_columns bind_datetime [''date_time'']
                  (stored_E1(''delta_mass_positive_g'' \<mapsto> PFloat 5))
                = Inr (stored_E1(''delta_mass_positive_g'' \<mapsto> PFloat 5))"
    by (rule bind_columns_fixed) (simp add: getattr_def stored_E1_def)
  have columns: "FLOAT_COLUMNS =
                   [''voltage_V'', ''current_A'', ''duration_min'',
                    ''initial_mass_positive_g'', ''final_mass_positive_g'']
                   @ ''delta_mass_positive_g'' # rest"
    by (simp add: FLOAT_COLUMNS_def rest_def)
  have coerced: "bind_columns (bind_float float_of_str) (''delta_mass_positive_g'' # rest)
                   (stored_E1(''delta_mass_positive_g'' \<mapsto> PStr ''5''))
                 = Inr (stored_E1(''delta_mass_positive_g'' \<mapsto> PFloat 5))"
    using assms by (simp add: getattr_def setattr_def after)
  have bound: "bind_row float_of_str (stored_E1(''delta_mass_positive_g'' \<mapsto> PStr ''5''))
                 = Inr (stored_E1(''delta_mass_positive_g'' \<mapsto> PFloat 5))"
    unfolding bind_row_def columns bind_columns_append before
    by (simp only: sum.case coerced date)
  have stored: "commit float_of_str [stored_E1(''delta_mass_positive_g'' \<mapsto> PStr ''5'')]
                  = Inr [stored_E1(''delta_mass_positive_g'' \<mapsto> PFloat 5)]"
    by (simp add: commit_def bound)
      (simp add: REQUIRED_COLUMNS_def getattr_def stored_E1_def)
  show ?thesis
    by (simp add: edit_experiment_def allowed found is_E1 changed same stored)
qed

lemma edit_refuses_text:
  assumes "float_of_str s = None"
  shows "edit_experiment float_of_str [stored_E1] ''E1'' [(''delta_mass_positive_g'', PStr s)]
           = Inl StatementError"
proof -
  define changes where "changes = [(''delta_mass_positive_g'', PStr s)]"
  have is_E1: "has_experiment_id ''E1'' stored_E1"
    by (simp add: has_experiment_id_def getattr_def stored_E1_def)
  then have found: "filter (has_experiment_id ''E1'') [stored_E1] = [stored_E1]"
    by simp
  have allowed: "''experiment_id'' \<notin> fst ` set changes"
    by (simp add: changes_def)
  have changed: "apply_changes float_of_str stored_E1 changes
                   = Inr (stored_E1(''delta_mass_positive_g'' \<mapsto> PStr s))"
    by (simp add: changes_def NUMERIC_FIELDS_def hasattr_def COLUMNS_def setattr_def)
  have same: "recalculate changes ik fk dk obj = Inr obj"
    if "ik \<noteq> ''delta_mass_positive_g''" and "fk \<noteq> ''delta_mass_positive_g''"
    for ik fk dk obj
    using that by (simp add: recalculate_def changes_def)
  have before: "bind_columns (bind_float float_of_str)
                  [''voltage_V'', ''current_A'', ''duration_min'',
                   ''initial_mass_positive_g'', ''final_mass_positive_g'']
                  (stored_E1(''delta_mass_positive_g'' \<mapsto> PStr s))
                = Inr (stored_E1(''delta_mass_positive_g'' \<mapsto> PStr s))"
    by (rule bind_columns_fixed) (simp add: getattr_def stored_E1_def)
  have columns: "FLOAT_COLUMNS =
                   [''voltage_V'', ''current_A'', ''duration_min'',
                    ''initial_mass_positive_g'', ''final_mass_positive_g'']
                   @ ''delta_mass_positive_g''
                   # [''initial_mass_negative_g'', ''final_mass_negative_g'',
                      ''delta_mass_negative_g'']"
    by (simp add: FLOAT_COLUMNS_def)
  have bound: "bind_row float_of_str (stored_E1(''delta_mass_positive_g'' \<mapsto> PStr s))
                 = Inl StatementError"
    unfolding bind_row_def columns bind_columns_append before
    using assms by (simp add: getattr_def)
  have stored: "commit float_of_str [stored_E1(''delta_mass_positive_g'' \<mapsto> PStr s)]
                  = Inl StatementError"
    by (simp add: commit_def bound)
  have "edit_experiment float_of_str [stored_E1] ''E1'' changes = Inl StatementError"
    by (simp add: edit_experiment_def allowed found is_E1 changed same stored)
  then show ?thesis
    by (simp only: changes_def)
qed

text \<open>A change of the identifier itself is refused as a call.\<close>

lemma edit_refuses_identifier:
  assumes "''experiment_id'' \<in> fst ` set changes"
  shows "edit_experiment float_of_str rows ident changes = Inl TypeError"
  using assms by (simp add: edit_experiment_def)

subsection \<open>What the recorder does keep\<close>

lemma dict_get_update:
  "dict_get (AList.update k v al) k' = (if k' = k then v else dict_get al k')"
  by (simp add: dict_get_def update_conv')

lemma getattr_map_of: "getattr (map_of al) k = dict_get al k"
  by (simp add: getattr_def dict_get_def)

lemma add_experiment_establishes:
  assumes "add_experiment float_of_str fromisoformat rows data = Inr (rows1, experiment)"
  shows "delta_positive_ok experiment \<and> delta_negative_ok experiment"
  using assms
  by (auto simp: add_experiment_def Let_def construct_experiment_def delta_positive_ok_def
        delta_negative_ok_def getattr_map_of dict_get_update
      split: sum.splits if_splits pyval.splits option.splits)

lemma apply_changes_untouched:
  assumes "apply_changes float_of_str obj changes = Inr obj1"
    and "key \<notin> fst ` set changes"
  shows "getattr obj1 key = getattr obj key"
  using assms
proof (induction changes arbitrary: obj)
  case Nil
  then show ?case by simp
next
  case (Cons kv rest)
  obtain k v where kv: "kv = (k, v)" by (cases kv)
  from Cons.prems(2) kv have k: "k \<noteq> key" and rest: "key \<notin> fst ` set rest"
    by auto
  from Cons.prems(1) kv obtain x where
    step: "apply_changes float_of_str
             (if hasattr obj k then setattr obj k x else obj) rest
           = Inr obj1"
    by (auto split: sum.splits)
  from Cons.IH [OF step rest] k show ?case
    by (simp add: getattr_def setattr_def)
qed

lemma recalculate_done:
  assumes "recalculate changes ik fk dk obj = Inr obj1"
    and "ik \<in> fst ` set changes \<or> fk \<in> fst ` set changes"
    and "dk \<noteq> ik" and "dk \<noteq> fk"
  shows "calculate_delta (getattr obj1 ik) (getattr obj1 fk)
           = Inr (getattr obj1 dk)"
  using assms
  by (auto simp: recalculate_def getattr_def setattr_def split: sum.splits if_splits)

lemma recalculate_other:
  assumes "recalculate changes ik fk dk obj = Inr obj1" and "key \<noteq> dk"
  shows "getattr obj1 key = getattr obj key"
  using assms
  by (auto simp: recalculate_def getattr_def setattr_def split: sum.splits if_splits)

lemma recalculate_skipped:
  assumes "ik \<notin> fst ` set changes" and "fk \<notin> fst ` set changes"
  shows "recalculate changes ik fk dk obj = Inr obj"
  using assms by (simp add: recalculate_def)

lemma edit_experiment_steps:
  assumes "edit_experiment float_of_str rows ident changes = Inr (rows1, obj3)"
  obtains obj obj1 obj2 where
    "one_or_none (filter (has_experiment_id ident) rows) = Inr (Some obj)"
    "apply_changes float_of_str obj changes = Inr obj1"
    "recalculate changes ''initial_mass_positive_g'' ''final_mass_positive_g''
       ''delta_mass_positive_g'' obj1 = Inr obj2"
    "recalculate changes ''initial_mass_negative_g'' ''final_mass_negative_g''
       ''delta_mass_negative_g'' obj2 = Inr obj3"
    "commit float_of_str (map (\<lambda>obj. if has_experiment_id ident obj then obj3 else obj) rows)
       = Inr rows1"
  using assms
  by (auto simp: edit_experiment_def split: sum.splits option.splits if_splits)

lemma edit_recomputes_positive:
  assumes "edit_experiment float_of_str rows ident changes = Inr (rows1, obj3)"
    and "''initial_mass_positive_g'' \<in> fst ` set changes
         \<or> ''final_mass_positive_g'' \<in> fst ` set changes"
  shows "delta_positive_ok obj3"
proof -
  from assms(1) obtain obj1 obj2 where
    pos: "recalculate changes ''initial_mass_positive_g'' ''final_mass_positive_g''
            ''delta_mass_positive_g'' obj1 = Inr obj2"
    and neg: "recalculate changes ''initial_mass_negative_g'' ''final_mass_negative_g''
            ''delta_mass_negative_g'' obj2 = Inr obj3"
    by (rule edit_experiment_steps)
  have "calculate_delta (getattr obj2 ''initial_mass_positive_g'')
                        (getattr obj2 ''final_mass_positive_g'')
          = Inr (getattr obj2 ''delta_mass_positive_g'')"
    by (rule recalculate_done [OF pos assms(2)]) simp_all
  then show ?thesis
    by (simp add: delta_positive_ok_def recalculate_other [OF neg])
qed

lemma edit_recomputes_negative:
  assumes "edit_experiment float_of_str rows ident changes = Inr (rows1, obj3)"
    and "''initial_mass_negative_g'' \<in> fst ` set changes
         \<or> ''final_mass_negative_g'' \<in> fst ` set changes"
  shows "delta_negative_ok obj3"
proof -
  from assms(1) obtain obj2 where
    neg: "recalculate changes ''initial_mass_negative_g'' ''final_mass_negative_g''
            ''delta_mass_negative_g'' obj2 = Inr obj3"
    by (rule edit_experiment_steps)
  have "calculate_delta (getattr obj3 ''initial_mass_negative_g'')
                        (getattr obj3 ''final_mass_negative_g'')
          = Inr (getattr obj3 ''delta_mass_negative_g'')"
    by (rule recalculate_done [OF neg assms(2)]) simp_all
  then show ?thesis
    by (simp add: delta_negative_ok_def)
qed

lemma edit_keeps_positive:
  assumes "edit_experiment float_of_str rows ident changes = Inr (rows1, obj3)"
    and "filter (has_experiment_id ident) rows = [obj]"
    and "delta_positive_ok obj"
    and "''delta_mass_positive_g'' \<notin> fst ` set changes"
  shows "delta_positive_ok obj3"
proof (cases "''initial_mass_positive_g'' \<in> fst ` set changes
              \<or> ''final_mass_positive_g'' \<in> fst ` set changes")
  case True
  with assms(1) show ?thesis by (rule edit_recomputes_positive)
next
  case False
  from assms(1) obtain obj0 obj1 obj2 where
    found: "one_or_none (filter (has_experiment_id ident) rows) = Inr (Some obj0)"
    and changed: "apply_changes float_of_str obj0 changes = Inr obj1"
    and pos: "recalculate changes ''initial_mass_positive_g'' ''final_mass_positive_g''
            ''delta_mass_positive_g'' obj1 = Inr obj2"
    and neg: "recalculate changes ''initial_mass_negative_g'' ''final_mass_negative_g''
            ''delta_mass_negative_g'' obj2 = Inr obj3"
    by (rule edit_experiment_steps)
  from found assms(2) have same: "obj0 = obj" by simp
  from False pos have e2: "obj2 = obj1"
    by (simp add: recalculate_skipped)
  have "getattr obj3 ''initial_mass_positive_g''
          = getattr obj ''initial_mass_positive_g''"
       "getattr obj3 ''final_mass_positive_g''
          = getattr obj ''final_mass_positive_g''"
       "getattr obj3 ''delta_mass_positive_g''
          = getattr obj ''delta_mass_positive_g''"
    using False assms(4)
    by (simp_all add: recalculate_other [OF neg] e2
          apply_changes_untouched [OF changed] same)
  with assms(3) show ?thesis
    by (simp add: delta_positive_ok_def)
qed

lemma edit_keeps_negative:
  assumes "edit_experiment float_of_str rows ident changes = Inr (rows1, obj3)"
    and "filter (has_experiment_id ident) rows = [obj]"
    and "delta_negative_ok obj"
    and "''delta_mass_negative_g'' \<notin> fst ` set changes"
  shows "delta_negative_ok obj3"
proof (cases "''initial_mass_negative_g'' \<in> fst ` set changes
              \<or> ''final_mass_negative_g'' \<in> fst ` set changes")
  case True
  with assms(1) show ?thesis by (rule edit_recomputes_negative)
next
  case False
  from assms(1) obtain obj0 obj1 obj2 where
    found: "one_or_none (filter (has_experiment_id ident) rows) = Inr (Some obj0)"
    and changed: "apply_changes float_of_str obj0 changes = Inr obj1"
    and pos: "recalculate changes ''initial_mass_positive_g'' ''final_mass_positive_g''
            ''delta_mass_positive_g'' obj1 = Inr obj2"
    and neg: "recalculate changes ''initial_mass_negative_g'' ''final_mass_negative_g''
            ''delta_mass_negative_g'' obj2 = Inr obj3"
    by (rule edit_experiment_steps)
  from found assms(2) have same: "obj0 = obj" by simp
  from False neg have e3: "obj3 = obj2"
    by (simp add: recalculate_skipped)
  have "getattr obj3 ''initial_mass_negative_g'' = getattr obj ''initial_mass_negative_g''"
       "getattr obj3 ''final_mass_negative_g'' = getattr obj ''final_mass_negative_g''"
       "getattr obj3 ''delta_mass_negative_g'' = getattr obj ''delta_mass_negative_g''"
    using False assms(4)
    by (simp_all add: e3 recalculate_other [OF pos]
          apply_changes_untouched [OF changed] same)
  with assms(3) show ?thesis
    by (simp add: delta_negative_ok_def)
qed

subsection \<open>What the table keeps\<close>

text \<open>
  The row that a commit stores holds, in each \<^verbatim>\<open>Float\<close> column, what the bind processor
  makes of the value of the object; where the object satisfies the invariant, so does
  its row.
\<close>

lemma bind_columns_result:
  assumes "bind_columns process columns obj = Inr row"
    and "\<forall>v. process v = Inr PNone \<longrightarrow> v = PNone"
    and "distinct columns"
  shows "(\<forall>c. c \<notin> set columns \<longrightarrow> getattr row c = getattr obj c)
       \<and> (\<forall>c \<in> set columns. process (getattr obj c) = Inr (getattr row c))"
  using assms(1,3)
proof (induction columns arbitrary: obj)
  case Nil
  then show ?case by simp
next
  case (Cons c0 cs)
  from Cons.prems(1) obtain x where
    x: "process (getattr obj c0) = Inr x"
    and rest: "bind_columns process cs (if x = PNone then obj else setattr obj c0 x) = Inr row"
    by (auto split: sum.splits)
  let ?obj = "if x = PNone then obj else setattr obj c0 x"
  from Cons.prems(2) have c0: "c0 \<notin> set cs" and cs: "distinct cs"
    by simp_all
  have other: "getattr ?obj c = getattr obj c" if "c \<noteq> c0" for c
    using that by (simp add: getattr_def setattr_def)
  have own: "getattr ?obj c0 = x"
  proof (cases "x = PNone")
    case True
    with x assms(2) have "getattr obj c0 = PNone" by blast
    with True show ?thesis by simp
  next
    case False
    then show ?thesis by (simp add: getattr_def setattr_def)
  qed
  from Cons.IH [OF rest cs]
  have outside: "\<And>c. c \<notin> set cs \<Longrightarrow> getattr row c = getattr ?obj c"
    and inside: "\<And>c. c \<in> set cs \<Longrightarrow> process (getattr ?obj c) = Inr (getattr row c)"
    by blast+
  show ?case
  proof (intro conjI allI ballI impI)
    fix c assume "c \<notin> set (c0 # cs)"
    then show "getattr row c = getattr obj c"
      using outside [of c] other [of c] by simp
  next
    fix c assume c: "c \<in> set (c0 # cs)"
    show "process (getattr obj c) = Inr (getattr row c)"
    proof (cases "c = c0")
      case True
      from outside [OF c0] own have "getattr row c0 = x" by simp
      with x True show ?thesis by simp
    next
      case False
      with c have "c \<in> set cs" by simp
      from inside [OF this] other [OF False] show ?thesis by simp
    qed
  qed
qed

lemma bind_float_None: "bind_float float_of_str v = Inr PNone \<Longrightarrow> v = PNone"
  by (cases v) (auto split: option.splits)

lemma bind_datetime_None: "bind_datetime v = Inr PNone \<Longrightarrow> v = PNone"
  by (cases v) auto

lemma bind_row_float:
  assumes "bind_row float_of_str obj = Inr row" and "c \<in> set FLOAT_COLUMNS"
  shows "bind_float float_of_str (getattr obj c) = Inr (getattr row c)"
proof -
  from assms(1) obtain obj1 where
    floats: "bind_columns (bind_float float_of_str) FLOAT_COLUMNS obj = Inr obj1"
    and date: "bind_columns bind_datetime [''date_time''] obj1 = Inr row"
    by (auto simp: bind_row_def split: sum.splits)
  have no_float: "\<forall>v. bind_float float_of_str v = Inr PNone \<longrightarrow> v = PNone"
    using bind_float_None by blast
  have no_date: "\<forall>v. bind_datetime v = Inr PNone \<longrightarrow> v = PNone"
    using bind_datetime_None by blast
  have distinct: "distinct FLOAT_COLUMNS" "distinct [''date_time'']"
    by (simp_all add: FLOAT_COLUMNS_def)
  from bind_columns_result [OF floats no_float distinct(1)] assms(2)
  have first: "bind_float float_of_str (getattr obj c) = Inr (getattr obj1 c)"
    by blast
  have "c \<notin> set [''date_time'']"
    using assms(2) by (auto simp: FLOAT_COLUMNS_def)
  with bind_columns_result [OF date no_date distinct(2)]
  have "getattr row c = getattr obj1 c"
    by blast
  with first show ?thesis by simp
qed

lemma bound_difference:
  assumes "py_sub b a = Inr d"
    and "bind_float float_of_str a = Inr a1"
    and "bind_float float_of_str b = Inr b1"
    and "bind_float float_of_str d = Inr d1"
  shows "py_sub b1 a1 = Inr d1"
  using assms by (cases a; cases b) (auto split: option.splits)

lemma bind_row_keeps_positive:
  assumes "bind_row float_of_str obj = Inr row" and "delta_positive_ok obj"
  shows "delta_positive_ok row"
proof -
  have columns: "''initial_mass_positive_g'' \<in> set FLOAT_COLUMNS"
    "''final_mass_positive_g'' \<in> set FLOAT_COLUMNS"
    "''delta_mass_positive_g'' \<in> set FLOAT_COLUMNS"
    by (simp_all add: FLOAT_COLUMNS_def)
  from assms(2) have "py_sub (getattr obj ''final_mass_positive_g'')
                             (getattr obj ''initial_mass_positive_g'')
                        = Inr (getattr obj ''delta_mass_positive_g'')"
    by (simp add: delta_positive_ok_def calculate_delta_def)
  then have "py_sub (getattr row ''final_mass_positive_g'')
                    (getattr row ''initial_mass_positive_g'')
               = Inr (getattr row ''delta_mass_positive_g'')"
    by (rule bound_difference) (rule bind_row_float [OF assms(1)], rule columns)+
  then show ?thesis
    by (simp add: delta_positive_ok_def calculate_delta_def)
qed

lemma bind_row_keeps_negative:
  assumes "bind_row float_of_str obj = Inr row" and "delta_negative_ok obj"
  shows "delta_negative_ok row"
proof -
  have columns: "''initial_mass_negative_g'' \<in> set FLOAT_COLUMNS"
    "''final_mass_negative_g'' \<in> set FLOAT_COLUMNS"
    "''delta_mass_negative_g'' \<in> set FLOAT_COLUMNS"
    by (simp_all add: FLOAT_COLUMNS_def)
  from assms(2) have "py_sub (getattr obj ''final_mass_negative_g'')
                             (getattr obj ''initial_mass_negative_g'')
                        = Inr (getattr obj ''delta_mass_negative_g'')"
    by (simp add: delta_negative_ok_def calculate_delta_def)
  then have "py_sub (getattr row ''final_mass_negative_g'')
                    (getattr row ''initial_mass_negative_g'')
               = Inr (getattr row ''delta_mass_negative_g'')"
    by (rule bound_difference) (rule bind_row_float [OF assms(1)], rule columns)+
  then show ?thesis
    by (simp add: delta_negative_ok_def calculate_delta_def)
qed

lemma bind_rows_append:
  assumes "bind_rows float_of_str (rows @ [obj]) = Inr stored"
  shows "\<exists>before row. stored = before @ [row] \<and> bind_rows float_of_str rows = Inr before
           \<and> bind_row float_of_str obj = Inr row"
  using assms
proof (induction rows arbitrary: stored)
  case Nil
  then show ?case by (auto split: sum.splits)
next
  case (Cons r rows)
  from Cons.prems obtain r1 rest where
    r1: "bind_row float_of_str r = Inr r1"
    and rest: "bind_rows float_of_str (rows @ [obj]) = Inr rest"
    and stored: "stored = r1 # rest"
    by (auto split: sum.splits)
  from Cons.IH [OF rest] obtain before row where
    "rest = before @ [row]" "bind_rows float_of_str rows = Inr before"
    "bind_row float_of_str obj = Inr row"
    by blast
  with r1 stored show ?case by simp
qed

lemma add_experiment_stores:
  assumes "add_experiment float_of_str fromisoformat rows data = Inr (rows1, obj)"
  shows "\<exists>before row. rows1 = before @ [row] \<and> bind_row float_of_str obj = Inr row
           \<and> delta_positive_ok row \<and> delta_negative_ok row"
proof -
  from assms have "commit float_of_str (rows @ [obj]) = Inr rows1"
    by (auto simp: add_experiment_def Let_def split: sum.splits)
  then have "bind_rows float_of_str (rows @ [obj]) = Inr rows1"
    by (auto simp: commit_def split: sum.splits if_splits)
  from bind_rows_append [OF this] obtain before row where
    "rows1 = before @ [row]" and row: "bind_row float_of_str obj = Inr row"
    by blast
  moreover from add_experiment_establishes [OF assms]
  have "delta_positive_ok row" "delta_negative_ok row"
    using row by (auto intro: bind_row_keeps_positive bind_row_keeps_negative)
  ultimately show ?thesis by blast
qed

lemma bind_rows_each:
  assumes "bind_rows float_of_str rows = Inr stored"
  shows "list_all2 (\<lambda>obj row. bind_row float_of_str obj = Inr row) rows stored"
  using assms
  by (induction rows arbitrary: stored) (auto split: sum.splits)

lemma edit_experiment_stores:
  assumes "edit_experiment float_of_str rows ident changes = Inr (rows1, obj3)"
  shows "\<exists>row \<in> set rows1. bind_row float_of_str obj3 = Inr row
           \<and> (delta_positive_ok obj3 \<longrightarrow> delta_positive_ok row)
           \<and> (delta_negative_ok obj3 \<longrightarrow> delta_negative_ok row)"
proof -
  let ?session = "map (\<lambda>obj. if has_experiment_id ident obj then obj3 else obj) rows"
  from assms obtain obj where
    found: "one_or_none (filter (has_experiment_id ident) rows) = Inr (Some obj)"
    and stored: "commit float_of_str ?session = Inr rows1"
    by (rule edit_experiment_steps)
  from found have "filter (has_experiment_id ident) rows = [obj]"
    by (cases "filter (has_experiment_id ident) rows" rule: one_or_none.cases) simp_all
  then have "obj \<in> set (filter (has_experiment_id ident) rows)"
    by simp
  then have "obj3 \<in> set ?session"
    by auto
  then obtain i where i: "i < length ?session" "?session ! i = obj3"
    by (auto simp only: in_set_conv_nth)
  from stored have "bind_rows float_of_str ?session = Inr rows1"
    by (auto simp: commit_def split: sum.splits if_splits)
  then have each: "list_all2 (\<lambda>obj row. bind_row float_of_str obj = Inr row) ?session rows1"
    by (rule bind_rows_each)
  with i have row: "bind_row float_of_str obj3 = Inr (rows1 ! i)" and "i < length rows1"
    by (auto simp: list_all2_conv_all_nth)
  then have "rows1 ! i \<in> set rows1"
    by simp
  with row show ?thesis
    by (blast intro: bind_row_keeps_positive bind_row_keeps_negative)
qed

end
